theory Spec2Isabelle
  imports Main "HOL-Library.Word"
begin

section \<open>Run-time faults\<close>

text \<open>
  The Go code has no error returns. What it can do besides returning is panic: reading a
  field through a nil pointer. A pointer argument is an \<open>option\<close> (\<open>None\<close> is nil) and
  an operation that dereferences one returns \<open>fault + 'a\<close>, \<open>Inl\<close> being the panic.
\<close>

datatype fault = NilPointerDereference

section \<open>Ownership filter and router (package consumergroup)\<close>

text \<open>
  Modelled from the spec: the lowercasing of one byte, for \<open>strings.ToLower\<close> below. The
  bytes \<open>A\<close> to \<open>Z\<close> are mapped to \<open>a\<close> to \<open>z\<close>, every other byte is kept.
\<close>

definition toLowerByte :: "char \<Rightarrow> char" where
  "toLowerByte c =
     (let n = (of_char c :: nat) in if 65 \<le> n \<and> n \<le> 90 then char_of (n + 32) else c)"

text \<open>
  Modelled from the spec: \<open>strings.ToLower\<close> of Go's standard library, missing from the
  sources, by which "matching is case-insensitive on both sides". It is modelled on the
  ASCII range, byte by byte. The general facts below never unfold it: they hold for any
  lowercasing function.
\<close>

definition ToLower :: "string \<Rightarrow> string" where
  "ToLower s = map toLowerByte s"

record OwnerReference =
  Kind :: string
  Name :: string

text \<open>Of a ConsumerGroup, the code reads the namespace and the owner references only.\<close>

record ConsumerGroup =
  Namespace :: string
  OwnerReferences :: "OwnerReference list"

text \<open>The routing key \<open>types.NamespacedName\<close>, with its fields \<open>Namespace\<close> and \<open>Name\<close>.\<close>

record NamespacedName =
  KeyNamespace :: string
  KeyName :: string

text \<open>
  The argument \<open>obj interface{}\<close>: the nil interface, a \<open>*ConsumerGroup\<close> (which may be a
  nil pointer of that type: the type assertion succeeds on it all the same), or a value of
  any other dynamic type, given by the name of that type.
\<close>

datatype object =
    NilInterface
  | ConsumerGroupPtr "ConsumerGroup option"
  | OtherObject string

text \<open>The type assertion \<open>cg, ok := obj.(*kafkainternals.ConsumerGroup)\<close>.\<close>

fun assertConsumerGroup :: "object \<Rightarrow> ConsumerGroup option \<times> bool" where
  "assertConsumerGroup (ConsumerGroupPtr p) = (p, True)"
| "assertConsumerGroup NilInterface = (None, False)"
| "assertConsumerGroup (OtherObject ty) = (None, False)"

text \<open>The loop of \<open>Filter\<close>: return true at the first owner reference of the kind.\<close>

fun filterLoop :: "string \<Rightarrow> OwnerReference list \<Rightarrow> bool" where
  "filterLoop userFacingResource [] = False"
| "filterLoop userFacingResource (r # rs) =
     (if ToLower (Kind r) = userFacingResource then True
      else filterLoop userFacingResource rs)"

definition Filter :: "string \<Rightarrow> object \<Rightarrow> fault + bool" where
  "Filter userFacingResource obj =
     (let lowered = ToLower userFacingResource in
      case assertConsumerGroup obj of
        (_, False) \<Rightarrow> Inr False
      | (None, True) \<Rightarrow> Inl NilPointerDereference
      | (Some cg, True) \<Rightarrow> Inr (filterLoop lowered (OwnerReferences cg)))"

text \<open>
  The loop of \<open>Enqueue\<close>. The work queue is a state \<open>'q\<close>. The callback \<open>enqueue\<close> is a Go
  function value: nil (\<open>None\<close>), or a function that takes a key and updates the queue.
  The loop threads the queue through its calls, in the order of the owner references; the
  call of a nil function value panics, which happens at the first owner reference of the
  kind.
\<close>

fun enqueueLoop ::
  "string \<Rightarrow> (NamespacedName \<Rightarrow> 'q \<Rightarrow> 'q) option \<Rightarrow> string \<Rightarrow> OwnerReference list \<Rightarrow> 'q
     \<Rightarrow> fault + 'q" where
  "enqueueLoop userFacingResource enqueue ns [] q = Inr q"
| "enqueueLoop userFacingResource enqueue ns (r # rs) q =
     (if ToLower (Kind r) = userFacingResource
      then (case enqueue of
              None \<Rightarrow> Inl NilPointerDereference
            | Some f \<Rightarrow>
                enqueueLoop userFacingResource enqueue ns rs
                  (f \<lparr>KeyNamespace = ns, KeyName = Name r\<rparr> q))
      else enqueueLoop userFacingResource enqueue ns rs q)"

definition Enqueue ::
  "string \<Rightarrow> (NamespacedName \<Rightarrow> 'q \<Rightarrow> 'q) option \<Rightarrow> object \<Rightarrow> 'q \<Rightarrow> fault + 'q" where
  "Enqueue userFacingResource enqueue obj q =
     (let lowered = ToLower userFacingResource in
      case assertConsumerGroup obj of
        (_, False) \<Rightarrow> Inr q
      | (None, True) \<Rightarrow> Inl NilPointerDereference
      | (Some cg, True) \<Rightarrow>
          enqueueLoop lowered enqueue (Namespace cg) (OwnerReferences cg) q)"

text \<open>A sink that records the keys it is called with, oldest first.\<close>

definition record_key :: "NamespacedName \<Rightarrow> NamespacedName list \<Rightarrow> NamespacedName list" where
  "record_key k ks = ks @ [k]"

text \<open>The keys the specification's Route emits: one per matching reference, in order.\<close>

definition matching_keys :: "string \<Rightarrow> ConsumerGroup \<Rightarrow> NamespacedName list" where
  "matching_keys k cg =
     map (\<lambda>r. \<lparr>KeyNamespace = Namespace cg, KeyName = Name r\<rparr>)
       (filter (\<lambda>r. ToLower (Kind r) = ToLower k) (OwnerReferences cg))"

section \<open>Conditions and their aggregation (knative.dev/pkg/apis)\<close>

text \<open>
  The lifecycle file calls the condition manager of \<open>knative.dev/pkg/apis\<close>
  (\<open>NewLivingConditionSet\<close>, \<open>Manage\<close>, \<open>MarkTrue\<close>, \<open>MarkFalse\<close>, \<open>MarkUnknown\<close>, ...), whose
  code is not among the sources. This section models it from the specification's
  sections 3 and 4.1.
\<close>

type_synonym ConditionType = string

datatype ConditionStatus = ConditionTrue | ConditionFalse | ConditionUnknown

datatype ConditionSeverity = ConditionSeverityError | ConditionSeverityInfo

text \<open>
  Modelled from the spec: the type \<open>apis.Condition\<close>, missing from the sources, with the six
  fields of the specification's data model. The time is a clock reading, a natural number.
\<close>

record Condition =
  Type :: ConditionType
  Status :: ConditionStatus
  Severity :: ConditionSeverity
  Reason :: string
  Message :: string
  LastTransitionTime :: nat

text \<open>
  Modelled from the spec: the conditions of one status, "a mapping from condition type to
  Condition" with unique keys. An absent condition is \<open>None\<close>.
\<close>

type_synonym Conditions = "ConditionType \<Rightarrow> Condition option"

text \<open>
  Modelled from the spec: the type \<open>apis.ConditionSet\<close>, missing from the sources: "an
  ordered list of dependent condition types plus the implicit aggregate condition type".
\<close>

record ConditionSet =
  happy :: ConditionType
  dependents :: "ConditionType list"

text \<open>Modelled from the spec: the constant \<open>apis.ConditionReady\<close>, the aggregate "Ready".\<close>

definition ConditionReady :: ConditionType where
  "ConditionReady = ''Ready''"

text \<open>
  Modelled from the spec: \<open>apis.NewLivingConditionSet\<close>, which declares the dependents
  of the aggregate "Ready" in the order given.
\<close>

definition NewLivingConditionSet :: "ConditionType list \<Rightarrow> ConditionSet" where
  "NewLivingConditionSet d = \<lparr>happy = ConditionReady, dependents = d\<rparr>"

text \<open>
  Modelled from the spec: \<open>fmt.Sprintf\<close> of Go's standard library, missing from the sources,
  which makes the "formatted message". The model covers what the lifecycle file uses: the
  verb \<open>%s\<close> with string operands, each replaced by its operand in turn. Once the operands
  are used up the rest of the format is kept as it is.
\<close>

fun Sprintf :: "string \<Rightarrow> string list \<Rightarrow> string" where
  "Sprintf (c # d # rest) (a # args) =
     (if c = CHR ''%'' \<and> d = CHR ''s'' then a @ Sprintf rest args
      else c # Sprintf (d # rest) (a # args))"
| "Sprintf format args = format"

text \<open>
  Modelled from the spec: the severity of a condition type, missing from the sources. The
  dependent types are of Error severity, the other types of Info severity; the aggregate,
  which the specification does not class, is taken as Error.
\<close>

definition severity :: "ConditionSet \<Rightarrow> ConditionType \<Rightarrow> ConditionSeverity" where
  "severity cs t =
     (if t = happy cs \<or> t \<in> set (dependents cs) then ConditionSeverityError
      else ConditionSeverityInfo)"

text \<open>Modelled from the spec: \<open>GetCondition\<close> of the manager: the condition, or nil.\<close>

definition Manage_GetCondition :: "Conditions \<Rightarrow> ConditionType \<Rightarrow> Condition option" where
  "Manage_GetCondition conds t = conds t"

text \<open>
  Modelled from the spec: storing a condition, missing from the sources. The time of the
  last transition is "updated only when status changes value": a condition stored for the
  first time or with another status than before gets the clock reading \<open>now\<close>, one stored
  with the status it had keeps its time.
\<close>

definition SetCondition :: "Conditions \<Rightarrow> Condition \<Rightarrow> nat \<Rightarrow> Conditions" where
  "SetCondition conds c now =
     conds (Type c \<mapsto> c\<lparr>LastTransitionTime :=
       (case conds (Type c) of
          None \<Rightarrow> now
        | Some old \<Rightarrow> if Status old = Status c then LastTransitionTime old else now)\<rparr>)"

text \<open>
  Modelled from the spec: the two tests of the aggregate computation, missing from the
  sources. A dependent is unresolved when it is "absent or Unknown", failed when it is
  False.
\<close>

definition unresolved :: "Conditions \<Rightarrow> ConditionType \<Rightarrow> bool" where
  "unresolved conds t =
     (case conds t of None \<Rightarrow> True | Some c \<Rightarrow> Status c = ConditionUnknown)"

text \<open>Modelled from the spec: the test "is False" of the aggregate computation.\<close>

definition failed :: "Conditions \<Rightarrow> ConditionType \<Rightarrow> bool" where
  "failed conds t =
     (case conds t of None \<Rightarrow> False | Some c \<Rightarrow> Status c = ConditionFalse)"

text \<open>
  Modelled from the spec: the reason and the message "copied from" a dependent. An absent
  dependent has none to copy: they are empty then.
\<close>

definition reasonOf :: "Condition option \<Rightarrow> string" where
  "reasonOf c = (case c of None \<Rightarrow> [] | Some x \<Rightarrow> Reason x)"

text \<open>Modelled from the spec: the message copied from a dependent, as the reason is.\<close>

definition messageOf :: "Condition option \<Rightarrow> string" where
  "messageOf c = (case c of None \<Rightarrow> [] | Some x \<Rightarrow> Message x)"

text \<open>
  Modelled from the spec: the aggregate computation, missing from the sources. "If any
  dependent condition is absent or Unknown, aggregate = Unknown, reason/message copied from
  the first such condition encountered in declaration order. Else if any dependent
  condition is False, aggregate = False, reason/message copied from the first False
  condition in declaration order. Else aggregate = True, reason/message cleared."
\<close>

definition aggregateOf :: "ConditionSet \<Rightarrow> Conditions \<Rightarrow> ConditionStatus \<times> string \<times> string" where
  "aggregateOf cs conds =
     (case find (unresolved conds) (dependents cs) of
        Some t \<Rightarrow> (ConditionUnknown, reasonOf (conds t), messageOf (conds t))
      | None \<Rightarrow>
          (case find (failed conds) (dependents cs) of
             Some t \<Rightarrow> (ConditionFalse, reasonOf (conds t), messageOf (conds t))
           | None \<Rightarrow> (ConditionTrue, [], [])))"

text \<open>
  Modelled from the spec: the recomputation "invoked after every mutating call", which
  stores the aggregate condition computed from the dependents.
\<close>

definition recomputeAggregate :: "ConditionSet \<Rightarrow> Conditions \<Rightarrow> nat \<Rightarrow> Conditions" where
  "recomputeAggregate cs conds now =
     (case aggregateOf cs conds of
        (st, r, m) \<Rightarrow>
          SetCondition conds
            \<lparr>Type = happy cs, Status = st, Severity = severity cs (happy cs),
             Reason = r, Message = m, LastTransitionTime = 0\<rparr> now)"

text \<open>
  Modelled from the spec: \<open>MarkTrue\<close> of the manager, missing from the sources: "set
  status=True, reason and message empty. Recompute aggregate."
\<close>

definition Manage_MarkTrue :: "ConditionSet \<Rightarrow> Conditions \<Rightarrow> ConditionType \<Rightarrow> nat \<Rightarrow> Conditions" where
  "Manage_MarkTrue cs conds t now =
     recomputeAggregate cs
       (SetCondition conds
          \<lparr>Type = t, Status = ConditionTrue, Severity = severity cs t,
           Reason = [], Message = [], LastTransitionTime = 0\<rparr> now) now"

text \<open>
  Modelled from the spec: \<open>MarkTrueWithReason\<close> of the manager, missing from the sources:
  "status=True but reason/message retained. Recompute aggregate."
\<close>

definition Manage_MarkTrueWithReason ::
  "ConditionSet \<Rightarrow> Conditions \<Rightarrow> ConditionType \<Rightarrow> string \<Rightarrow> string \<Rightarrow> string list \<Rightarrow> nat \<Rightarrow> Conditions" where
  "Manage_MarkTrueWithReason cs conds t reason messageFormat messageA now =
     recomputeAggregate cs
       (SetCondition conds
          \<lparr>Type = t, Status = ConditionTrue, Severity = severity cs t,
           Reason = reason, Message = Sprintf messageFormat messageA,
           LastTransitionTime = 0\<rparr> now) now"

text \<open>
  Modelled from the spec: \<open>MarkFalse\<close> of the manager, missing from the sources:
  "status=False, reason and formatted message set. Recompute aggregate."
\<close>

definition Manage_MarkFalse ::
  "ConditionSet \<Rightarrow> Conditions \<Rightarrow> ConditionType \<Rightarrow> string \<Rightarrow> string \<Rightarrow> string list \<Rightarrow> nat \<Rightarrow> Conditions" where
  "Manage_MarkFalse cs conds t reason messageFormat messageA now =
     recomputeAggregate cs
       (SetCondition conds
          \<lparr>Type = t, Status = ConditionFalse, Severity = severity cs t,
           Reason = reason, Message = Sprintf messageFormat messageA,
           LastTransitionTime = 0\<rparr> now) now"

text \<open>
  Modelled from the spec: \<open>MarkUnknown\<close> of the manager, missing from the sources:
  "status=Unknown, reason and formatted message set. Recompute aggregate."
\<close>

definition Manage_MarkUnknown ::
  "ConditionSet \<Rightarrow> Conditions \<Rightarrow> ConditionType \<Rightarrow> string \<Rightarrow> string \<Rightarrow> string list \<Rightarrow> nat \<Rightarrow> Conditions" where
  "Manage_MarkUnknown cs conds t reason messageFormat messageA now =
     recomputeAggregate cs
       (SetCondition conds
          \<lparr>Type = t, Status = ConditionUnknown, Severity = severity cs t,
           Reason = reason, Message = Sprintf messageFormat messageA,
           LastTransitionTime = 0\<rparr> now) now"

text \<open>
  Modelled from the spec: \<open>InitializeConditions\<close> of the manager, missing from the sources.
  "For every condition type declared in the ConditionSet not yet present, set it to Unknown
  with empty reason/message. No-op for already-present conditions." The declared types are
  the dependents and the aggregate; the aggregate too is set when it is absent and left
  as it is when it is present. (The data model's sentence on the lifecycle names a reason
  "Initializing" where the operation's own description, followed here, has the empty
  reason.)
\<close>

definition initializeCondition :: "ConditionSet \<Rightarrow> nat \<Rightarrow> ConditionType \<Rightarrow> Conditions \<Rightarrow> Conditions" where
  "initializeCondition cs now t conds =
     (case conds t of
        Some c \<Rightarrow> conds
      | None \<Rightarrow>
          SetCondition conds
            \<lparr>Type = t, Status = ConditionUnknown, Severity = severity cs t,
             Reason = [], Message = [], LastTransitionTime = 0\<rparr> now)"

text \<open>
  Modelled from the spec: the declared types are initialised one after the other, the
  aggregate first.
\<close>

definition Manage_InitializeConditions :: "ConditionSet \<Rightarrow> Conditions \<Rightarrow> nat \<Rightarrow> Conditions" where
  "Manage_InitializeConditions cs conds now =
     fold (initializeCondition cs now) (happy cs # dependents cs) conds"

text \<open>
  Modelled from the spec: \<open>IsHappy\<close> of the manager, missing from the sources: "true iff the
  aggregate Ready condition's status is True".
\<close>

definition Manage_IsHappy :: "ConditionSet \<Rightarrow> Conditions \<Rightarrow> bool" where
  "Manage_IsHappy cs conds =
     (case conds (happy cs) of None \<Rightarrow> False | Some c \<Rightarrow> Status c = ConditionTrue)"

section \<open>The lifecycle of a KafkaSource status (package v1)\<close>

definition KafkaConditionReady :: ConditionType where
  "KafkaConditionReady = ConditionReady"

definition KafkaConditionSinkProvided :: ConditionType where
  "KafkaConditionSinkProvided = ''SinkProvided''"

definition KafkaConditionDeployed :: ConditionType where
  "KafkaConditionDeployed = ''Deployed''"

definition KafkaConditionKeyType :: ConditionType where
  "KafkaConditionKeyType = ''KeyTypeCorrect''"

definition KafkaConditionConnectionEstablished :: ConditionType where
  "KafkaConditionConnectionEstablished = ''ConnectionEstablished''"

definition KafkaConditionInitialOffsetsCommitted :: ConditionType where
  "KafkaConditionInitialOffsetsCommitted = ''InitialOffsetsCommitted''"

definition KafkaConditionOIDCIdentityCreated :: ConditionType where
  "KafkaConditionOIDCIdentityCreated = ''OIDCIdentityCreated''"

text \<open>
  The condition set as the file declares it. \<open>RegisterAlternateKafkaConditionSet\<close> can
  replace it; the operations below are those of a process in which it has not been called.
\<close>

definition KafkaSourceCondSet :: ConditionSet where
  "KafkaSourceCondSet =
     NewLivingConditionSet
       [KafkaConditionSinkProvided,
        KafkaConditionDeployed,
        KafkaConditionConnectionEstablished,
        KafkaConditionInitialOffsetsCommitted,
        KafkaConditionOIDCIdentityCreated]"

text \<open>
  Modelled from the spec: \<open>apis.URL\<close> and its method \<open>IsEmpty\<close>, missing from the sources: a
  URL is its text, and a nil or empty one "is empty".
\<close>

type_synonym URL = string

fun IsEmpty :: "URL option \<Rightarrow> bool" where
  "IsEmpty None = True"
| "IsEmpty (Some u) = (u = [])"

text \<open>
  Modelled from the spec: the type \<open>duckv1.Addressable\<close>, missing from the sources, "a
  resolved-address structure with at least url, caCertificates, audience": the three pointer
  fields the file reads.
\<close>

record Addressable =
  URL :: "URL option"
  CACerts :: "string option"
  Audience :: "string option"

text \<open>
  Modelled from the spec: the type \<open>KafkaSourceStatus\<close>, whose declaration is missing from
  the sources: the conditions and the fields the file reads or writes. \<open>Consumers\<close> is an
  \<open>int32\<close>, as are the replicas of a deployment.
\<close>

record KafkaSourceStatus =
  Conditions :: Conditions
  SinkURI :: "URL option"
  SinkCACerts :: "string option"
  SinkAudience :: "string option"
  Consumers :: "32 word"
  Claims :: string

text \<open>
  Modelled from the spec: the types \<open>appsv1.Deployment\<close>, \<open>appsv1.DeploymentStatus\<close> and
  \<open>appsv1.DeploymentCondition\<close> of the Kubernetes API, missing from the sources: "a workload
  status structure exposing a list of type/status pairs, plus a numeric replica count", and
  the name of the workload. The fields \<open>Type\<close> and \<open>Status\<close> of a deployment condition are
  \<open>DCType\<close> and \<open>DCStatus\<close> here, the fields \<open>Name\<close> and \<open>Status\<close> of a deployment
  \<open>DeploymentName\<close> and \<open>DStatus\<close>, the field \<open>Conditions\<close> of its status
  \<open>DeploymentConditions\<close>.
\<close>

record DeploymentCondition =
  DCType :: string
  DCStatus :: string

record DeploymentStatus =
  Replicas :: "32 word"
  DeploymentConditions :: "DeploymentCondition list"

record Deployment =
  DeploymentName :: string
  DStatus :: DeploymentStatus

text \<open>
  The constant \<open>appsv1.DeploymentAvailable\<close> of the Kubernetes API, missing from the sources.
  No general fact below depends on its value.
\<close>

definition DeploymentAvailable :: string where
  "DeploymentAvailable = ''Available''"

definition GetCondition :: "KafkaSourceStatus \<Rightarrow> ConditionType \<Rightarrow> Condition option" where
  "GetCondition s t = Manage_GetCondition (Conditions s) t"

definition IsReady :: "KafkaSourceStatus \<Rightarrow> bool" where
  "IsReady s = Manage_IsHappy KafkaSourceCondSet (Conditions s)"

definition InitializeConditions :: "KafkaSourceStatus \<Rightarrow> nat \<Rightarrow> KafkaSourceStatus" where
  "InitializeConditions s now =
     s\<lparr>Conditions := Manage_InitializeConditions KafkaSourceCondSet (Conditions s) now\<rparr>"

text \<open>
  \<open>MarkSink\<close> reads \<open>addr.URL\<close> first: with a nil \<open>addr\<close> that read panics. The clock
  reading \<open>now\<close> is the time of the call.
\<close>

definition MarkSink :: "KafkaSourceStatus \<Rightarrow> Addressable option \<Rightarrow> nat \<Rightarrow> fault + KafkaSourceStatus" where
  "MarkSink s addr now =
     (case addr of
        None \<Rightarrow> Inl NilPointerDereference
      | Some a \<Rightarrow>
          if URL a \<noteq> None \<and> \<not> IsEmpty (URL a) then
            (let s1 = s\<lparr>SinkURI := URL a\<rparr>;
                 s2 = s1\<lparr>SinkCACerts := CACerts a\<rparr>;
                 s3 = s2\<lparr>SinkAudience := Audience a\<rparr>
             in Inr (s3\<lparr>Conditions :=
                  Manage_MarkTrue KafkaSourceCondSet (Conditions s3)
                    KafkaConditionSinkProvided now\<rparr>))
          else
            Inr (s\<lparr>Conditions :=
              Manage_MarkUnknown KafkaSourceCondSet (Conditions s)
                KafkaConditionSinkProvided ''SinkEmpty''
                ''Sink has resolved to empty.%s'' [[]] now\<rparr>))"

definition MarkNoSink :: "KafkaSourceStatus \<Rightarrow> string \<Rightarrow> string \<Rightarrow> string list \<Rightarrow> nat \<Rightarrow> KafkaSourceStatus" where
  "MarkNoSink s reason messageFormat messageA now =
     s\<lparr>Conditions :=
       Manage_MarkFalse KafkaSourceCondSet (Conditions s)
         KafkaConditionSinkProvided reason messageFormat messageA now\<rparr>"

text \<open>The loop of \<open>DeploymentIsAvailable\<close>: the first condition of the type decides.\<close>

fun availableLoop :: "DeploymentCondition list \<Rightarrow> bool \<Rightarrow> bool" where
  "availableLoop [] def = def"
| "availableLoop (cond # conds) def =
     (if DCType cond = DeploymentAvailable then DCStatus cond = ''True''
      else availableLoop conds def)"

definition DeploymentIsAvailable :: "DeploymentStatus option \<Rightarrow> bool \<Rightarrow> fault + bool" where
  "DeploymentIsAvailable d def =
     (case d of
        None \<Rightarrow> Inl NilPointerDereference
      | Some st \<Rightarrow> Inr (availableLoop (DeploymentConditions st) def))"

text \<open>
  \<open>MarkDeployed\<close> calls \<open>duck.DeploymentIsAvailable\<close>, the function of that name whose body
  the sources give, on \<open>&d.Status\<close>: with a nil \<open>d\<close> taking that address panics.
\<close>

definition MarkDeployed :: "KafkaSourceStatus \<Rightarrow> Deployment option \<Rightarrow> nat \<Rightarrow> fault + KafkaSourceStatus" where
  "MarkDeployed s d now =
     (case d of
        None \<Rightarrow> Inl NilPointerDereference
      | Some dep \<Rightarrow>
          (case DeploymentIsAvailable (Some (DStatus dep)) False of
             Inl f \<Rightarrow> Inl f
           | Inr available \<Rightarrow>
               if available then
                 (let s1 = s\<lparr>Conditions :=
                        Manage_MarkTrue KafkaSourceCondSet (Conditions s)
                          KafkaConditionDeployed now\<rparr>
                  in Inr (s1\<lparr>Consumers := Replicas (DStatus dep)\<rparr>))
               else
                 Inr (s\<lparr>Conditions :=
                   Manage_MarkFalse KafkaSourceCondSet (Conditions s)
                     KafkaConditionDeployed ''DeploymentUnavailable''
                     ''The Deployment '%s' is unavailable.'' [DeploymentName dep] now\<rparr>)))"

definition MarkDeploying :: "KafkaSourceStatus \<Rightarrow> string \<Rightarrow> string \<Rightarrow> string list \<Rightarrow> nat \<Rightarrow> KafkaSourceStatus" where
  "MarkDeploying s reason messageFormat messageA now =
     s\<lparr>Conditions :=
       Manage_MarkUnknown KafkaSourceCondSet (Conditions s)
         KafkaConditionDeployed reason messageFormat messageA now\<rparr>"

definition MarkNotDeployed :: "KafkaSourceStatus \<Rightarrow> string \<Rightarrow> string \<Rightarrow> string list \<Rightarrow> nat \<Rightarrow> KafkaSourceStatus" where
  "MarkNotDeployed s reason messageFormat messageA now =
     s\<lparr>Conditions :=
       Manage_MarkFalse KafkaSourceCondSet (Conditions s)
         KafkaConditionDeployed reason messageFormat messageA now\<rparr>"

definition MarkKeyTypeCorrect :: "KafkaSourceStatus \<Rightarrow> nat \<Rightarrow> KafkaSourceStatus" where
  "MarkKeyTypeCorrect s now =
     s\<lparr>Conditions :=
       Manage_MarkTrue KafkaSourceCondSet (Conditions s) KafkaConditionKeyType now\<rparr>"

definition MarkKeyTypeIncorrect :: "KafkaSourceStatus \<Rightarrow> string \<Rightarrow> string \<Rightarrow> string list \<Rightarrow> nat \<Rightarrow> KafkaSourceStatus" where
  "MarkKeyTypeIncorrect s reason messageFormat messageA now =
     s\<lparr>Conditions :=
       Manage_MarkFalse KafkaSourceCondSet (Conditions s)
         KafkaConditionKeyType reason messageFormat messageA now\<rparr>"

definition MarkConnectionEstablished :: "KafkaSourceStatus \<Rightarrow> nat \<Rightarrow> KafkaSourceStatus" where
  "MarkConnectionEstablished cs now =
     cs\<lparr>Conditions :=
       Manage_MarkTrue KafkaSourceCondSet (Conditions cs)
         KafkaConditionConnectionEstablished now\<rparr>"

definition MarkConnectionNotEstablished :: "KafkaSourceStatus \<Rightarrow> string \<Rightarrow> string \<Rightarrow> string list \<Rightarrow> nat \<Rightarrow> KafkaSourceStatus" where
  "MarkConnectionNotEstablished cs reason messageFormat messageA now =
     cs\<lparr>Conditions :=
       Manage_MarkFalse KafkaSourceCondSet (Conditions cs)
         KafkaConditionConnectionEstablished reason messageFormat messageA now\<rparr>"

definition MarkInitialOffsetCommitted :: "KafkaSourceStatus \<Rightarrow> nat \<Rightarrow> KafkaSourceStatus" where
  "MarkInitialOffsetCommitted s now =
     s\<lparr>Conditions :=
       Manage_MarkTrue KafkaSourceCondSet (Conditions s)
         KafkaConditionInitialOffsetsCommitted now\<rparr>"

definition MarkInitialOffsetNotCommitted :: "KafkaSourceStatus \<Rightarrow> string \<Rightarrow> string \<Rightarrow> string list \<Rightarrow> nat \<Rightarrow> KafkaSourceStatus" where
  "MarkInitialOffsetNotCommitted s reason messageFormat messageA now =
     s\<lparr>Conditions :=
       Manage_MarkFalse KafkaSourceCondSet (Conditions s)
         KafkaConditionInitialOffsetsCommitted reason messageFormat messageA now\<rparr>"

definition MarkOIDCIdentityCreatedSucceeded :: "KafkaSourceStatus \<Rightarrow> nat \<Rightarrow> KafkaSourceStatus" where
  "MarkOIDCIdentityCreatedSucceeded s now =
     s\<lparr>Conditions :=
       Manage_MarkTrue KafkaSourceCondSet (Conditions s)
         KafkaConditionOIDCIdentityCreated now\<rparr>"

definition MarkOIDCIdentityCreatedSucceededWithReason :: "KafkaSourceStatus \<Rightarrow> string \<Rightarrow> string \<Rightarrow> string list \<Rightarrow> nat \<Rightarrow> KafkaSourceStatus" where
  "MarkOIDCIdentityCreatedSucceededWithReason s reason messageFormat messageA now =
     s\<lparr>Conditions :=
       Manage_MarkTrueWithReason KafkaSourceCondSet (Conditions s)
         KafkaConditionOIDCIdentityCreated reason messageFormat messageA now\<rparr>"

definition MarkOIDCIdentityCreatedFailed :: "KafkaSourceStatus \<Rightarrow> string \<Rightarrow> string \<Rightarrow> string list \<Rightarrow> nat \<Rightarrow> KafkaSourceStatus" where
  "MarkOIDCIdentityCreatedFailed s reason messageFormat messageA now =
     s\<lparr>Conditions :=
       Manage_MarkFalse KafkaSourceCondSet (Conditions s)
         KafkaConditionOIDCIdentityCreated reason messageFormat messageA now\<rparr>"

definition MarkOIDCIdentityCreatedUnknown :: "KafkaSourceStatus \<Rightarrow> string \<Rightarrow> string \<Rightarrow> string list \<Rightarrow> nat \<Rightarrow> KafkaSourceStatus" where
  "MarkOIDCIdentityCreatedUnknown s reason messageFormat messageA now =
     s\<lparr>Conditions :=
       Manage_MarkUnknown KafkaSourceCondSet (Conditions s)
         KafkaConditionOIDCIdentityCreated reason messageFormat messageA now\<rparr>"

definition UpdateConsumerGroupStatus :: "KafkaSourceStatus \<Rightarrow> string \<Rightarrow> KafkaSourceStatus" where
  "UpdateConsumerGroupStatus s status = s\<lparr>Claims := status\<rparr>"

text \<open>
  A call of one of the mark operations of the file, with its arguments, so that a
  statement can range over all of them; \<open>runMark\<close> makes the call.
\<close>

datatype MarkCall =
    CallMarkSink "Addressable option"
  | CallMarkNoSink string string "string list"
  | CallMarkDeployed "Deployment option"
  | CallMarkDeploying string string "string list"
  | CallMarkNotDeployed string string "string list"
  | CallMarkKeyTypeCorrect
  | CallMarkKeyTypeIncorrect string string "string list"
  | CallMarkConnectionEstablished
  | CallMarkConnectionNotEstablished string string "string list"
  | CallMarkInitialOffsetCommitted
  | CallMarkInitialOffsetNotCommitted string string "string list"
  | CallMarkOIDCIdentityCreatedSucceeded
  | CallMarkOIDCIdentityCreatedSucceededWithReason string string "string list"
  | CallMarkOIDCIdentityCreatedFailed string string "string list"
  | CallMarkOIDCIdentityCreatedUnknown string string "string list"

fun runMark :: "MarkCall \<Rightarrow> KafkaSourceStatus \<Rightarrow> nat \<Rightarrow> fault + KafkaSourceStatus" where
  "runMark (CallMarkSink addr) s now = MarkSink s addr now"
| "runMark (CallMarkNoSink r f a) s now = Inr (MarkNoSink s r f a now)"
| "runMark (CallMarkDeployed d) s now = MarkDeployed s d now"
| "runMark (CallMarkDeploying r f a) s now = Inr (MarkDeploying s r f a now)"
| "runMark (CallMarkNotDeployed r f a) s now = Inr (MarkNotDeployed s r f a now)"
| "runMark CallMarkKeyTypeCorrect s now = Inr (MarkKeyTypeCorrect s now)"
| "runMark (CallMarkKeyTypeIncorrect r f a) s now = Inr (MarkKeyTypeIncorrect s r f a now)"
| "runMark CallMarkConnectionEstablished s now = Inr (MarkConnectionEstablished s now)"
| "runMark (CallMarkConnectionNotEstablished r f a) s now =
     Inr (MarkConnectionNotEstablished s r f a now)"
| "runMark CallMarkInitialOffsetCommitted s now = Inr (MarkInitialOffsetCommitted s now)"
| "runMark (CallMarkInitialOffsetNotCommitted r f a) s now =
     Inr (MarkInitialOffsetNotCommitted s r f a now)"
| "runMark CallMarkOIDCIdentityCreatedSucceeded s now =
     Inr (MarkOIDCIdentityCreatedSucceeded s now)"
| "runMark (CallMarkOIDCIdentityCreatedSucceededWithReason r f a) s now =
     Inr (MarkOIDCIdentityCreatedSucceededWithReason s r f a now)"
| "runMark (CallMarkOIDCIdentityCreatedFailed r f a) s now =
     Inr (MarkOIDCIdentityCreatedFailed s r f a now)"
| "runMark (CallMarkOIDCIdentityCreatedUnknown r f a) s now =
     Inr (MarkOIDCIdentityCreatedUnknown s r f a now)"

text \<open>A status on which nothing has been set yet.\<close>

definition freshStatus :: KafkaSourceStatus where
  "freshStatus =
     \<lparr>Conditions = (\<lambda>t. None), SinkURI = None, SinkCACerts = None, SinkAudience = None,
      Consumers = 0, Claims = []\<rparr>"

text \<open>Whether a call passes a nil pointer for its argument.\<close>

fun nilArgument :: "MarkCall \<Rightarrow> bool" where
  "nilArgument (CallMarkSink None) = True"
| "nilArgument (CallMarkDeployed None) = True"
| "nilArgument call = False"

text \<open>The condition a mark call is about, and the statuses the call can give it.\<close>

fun markedCondition :: "MarkCall \<Rightarrow> ConditionType" where
  "markedCondition (CallMarkSink addr) = KafkaConditionSinkProvided"
| "markedCondition (CallMarkNoSink r f a) = KafkaConditionSinkProvided"
| "markedCondition (CallMarkDeployed d) = KafkaConditionDeployed"
| "markedCondition (CallMarkDeploying r f a) = KafkaConditionDeployed"
| "markedCondition (CallMarkNotDeployed r f a) = KafkaConditionDeployed"
| "markedCondition CallMarkKeyTypeCorrect = KafkaConditionKeyType"
| "markedCondition (CallMarkKeyTypeIncorrect r f a) = KafkaConditionKeyType"
| "markedCondition CallMarkConnectionEstablished = KafkaConditionConnectionEstablished"
| "markedCondition (CallMarkConnectionNotEstablished r f a) =
     KafkaConditionConnectionEstablished"
| "markedCondition CallMarkInitialOffsetCommitted = KafkaConditionInitialOffsetsCommitted"
| "markedCondition (CallMarkInitialOffsetNotCommitted r f a) =
     KafkaConditionInitialOffsetsCommitted"
| "markedCondition CallMarkOIDCIdentityCreatedSucceeded = KafkaConditionOIDCIdentityCreated"
| "markedCondition (CallMarkOIDCIdentityCreatedSucceededWithReason r f a) =
     KafkaConditionOIDCIdentityCreated"
| "markedCondition (CallMarkOIDCIdentityCreatedFailed r f a) =
     KafkaConditionOIDCIdentityCreated"
| "markedCondition (CallMarkOIDCIdentityCreatedUnknown r f a) =
     KafkaConditionOIDCIdentityCreated"

fun markedStatuses :: "MarkCall \<Rightarrow> ConditionStatus list" where
  "markedStatuses (CallMarkSink addr) = [ConditionTrue, ConditionUnknown]"
| "markedStatuses (CallMarkNoSink r f a) = [ConditionFalse]"
| "markedStatuses (CallMarkDeployed d) = [ConditionTrue, ConditionFalse]"
| "markedStatuses (CallMarkDeploying r f a) = [ConditionUnknown]"
| "markedStatuses (CallMarkNotDeployed r f a) = [ConditionFalse]"
| "markedStatuses CallMarkKeyTypeCorrect = [ConditionTrue]"
| "markedStatuses (CallMarkKeyTypeIncorrect r f a) = [ConditionFalse]"
| "markedStatuses CallMarkConnectionEstablished = [ConditionTrue]"
| "markedStatuses (CallMarkConnectionNotEstablished r f a) = [ConditionFalse]"
| "markedStatuses CallMarkInitialOffsetCommitted = [ConditionTrue]"
| "markedStatuses (CallMarkInitialOffsetNotCommitted r f a) = [ConditionFalse]"
| "markedStatuses CallMarkOIDCIdentityCreatedSucceeded = [ConditionTrue]"
| "markedStatuses (CallMarkOIDCIdentityCreatedSucceededWithReason r f a) = [ConditionTrue]"
| "markedStatuses (CallMarkOIDCIdentityCreatedFailed r f a) = [ConditionFalse]"
| "markedStatuses (CallMarkOIDCIdentityCreatedUnknown r f a) = [ConditionUnknown]"

text \<open>
  What a mark operation leaves in the conditions: the condition \<open>t\<close> with the status \<open>st\<close>,
  and the aggregate.
\<close>

definition marked :: "Conditions \<Rightarrow> ConditionType \<Rightarrow> ConditionStatus \<Rightarrow> bool" where
  "marked conds t st =
     ((\<exists>c. conds t = Some c \<and> Status c = st) \<and> (\<exists>r. conds KafkaConditionReady = Some r))"

text \<open>
  Whether some owner reference of the object is of the kind \<open>k\<close>: the object is a
  ConsumerGroup and the loops of \<open>Filter\<close> and \<open>Enqueue\<close> find a match.
\<close>

definition ownedByKind :: "string \<Rightarrow> object \<Rightarrow> bool" where
  "ownedByKind k obj =
     (case obj of
        ConsumerGroupPtr (Some cg) \<Rightarrow>
          list_ex (\<lambda>r. ToLower (Kind r) = ToLower k) (OwnerReferences cg)
      | _ \<Rightarrow> False)"

section \<open>Example inputs\<close>

text \<open>
  A status whose sink is provided and whose connection has failed, the other conditions
  not being set.
\<close>

definition exampleStatus :: KafkaSourceStatus where
  "exampleStatus =
     freshStatus\<lparr>Conditions :=
       [''SinkProvided'' \<mapsto>
          \<lparr>Type = ''SinkProvided'', Status = ConditionTrue,
           Severity = ConditionSeverityError, Reason = [], Message = [],
           LastTransitionTime = 1\<rparr>,
        ''ConnectionEstablished'' \<mapsto>
          \<lparr>Type = ''ConnectionEstablished'', Status = ConditionFalse,
           Severity = ConditionSeverityError, Reason = ''DialTimeout'',
           Message = ''could not reach broker'', LastTransitionTime = 2\<rparr>]\<rparr>"

definition sinkAddress :: Addressable where
  "sinkAddress =
     \<lparr>URL = Some ''http://sink.example'', CACerts = Some ''ca'', Audience = Some ''aud''\<rparr>"

definition emptyAddress :: Addressable where
  "emptyAddress = \<lparr>URL = Some [], CACerts = Some ''ca'', Audience = Some ''aud''\<rparr>"

text \<open>A status that holds the data of a sink resolved earlier.\<close>

definition staleStatus :: KafkaSourceStatus where
  "staleStatus =
     freshStatus\<lparr>SinkURI := Some ''http://old.example'', SinkCACerts := Some ''old-ca'',
       SinkAudience := Some ''old-aud''\<rparr>"

definition availableDeployment :: Deployment where
  "availableDeployment =
     \<lparr>DeploymentName = ''adapter'',
      DStatus = \<lparr>Replicas = 3,
        DeploymentConditions =
          [\<lparr>DCType = ''Progressing'', DCStatus = ''True''\<rparr>,
           \<lparr>DCType = ''Available'', DCStatus = ''True''\<rparr>,
           \<lparr>DCType = ''Available'', DCStatus = ''False''\<rparr>]\<rparr>\<rparr>"

definition unavailableDeployment :: Deployment where
  "unavailableDeployment =
     \<lparr>DeploymentName = ''adapter'',
      DStatus = \<lparr>Replicas = 3,
        DeploymentConditions = [\<lparr>DCType = ''Progressing'', DCStatus = ''True''\<rparr>]\<rparr>\<rparr>"

section \<open>Properties of the filter and the router\<close>

lemma filterLoop_iff: "filterLoop u rs = (\<exists>r \<in> set rs. ToLower (Kind r) = u)"
  by (induction rs) auto

lemma enqueueLoop_fold:
  "enqueueLoop u (Some enqueue) ns rs q =
     Inr (foldl (\<lambda>acc k. enqueue k acc) q
       (map (\<lambda>r. \<lparr>KeyNamespace = ns, KeyName = Name r\<rparr>)
          (filter (\<lambda>r. ToLower (Kind r) = u) rs)))"
  by (induction rs arbitrary: q) auto

lemma enqueueLoop_nil_callback:
  "enqueueLoop u None ns rs q =
     (if \<exists>r \<in> set rs. ToLower (Kind r) = u then Inl NilPointerDereference else Inr q)"
  by (induction rs) auto

lemma foldl_record_key: "foldl (\<lambda>acc k. record_key k acc) q ks = q @ ks"
  by (induction ks arbitrary: q) (auto simp: record_key_def)

lemma ToLower_examples:
  "ToLower ''KafkaSource'' = ''kafkasource''"
  "ToLower ''KAFKASOURCE'' = ''kafkasource''"
  "ToLower ''kafkasource'' = ''kafkasource''"
  "ToLower ''Trigger'' = ''trigger''"
  by code_simp+

lemma assertConsumerGroup_other:
  "(\<forall>p. obj \<noteq> ConsumerGroupPtr p) \<Longrightarrow> assertConsumerGroup obj = (None, False)"
  by (cases obj) auto

text \<open>
  C3. For every owning kind \<open>k\<close> and every object, the predicate \<open>Filter k\<close> returns true
  if and only if the object is a ConsumerGroup and one of its owner references has a kind
  equal to \<open>k\<close> once both are lowercased. Only the object's own list of owner references is
  read: the model of a ConsumerGroup has nothing else to follow. On every object but a nil
  \<open>*ConsumerGroup\<close> the predicate returns, and its value is that condition; on a nil
  \<open>*ConsumerGroup\<close> the read of its owner references panics.
\<close>

theorem Filter_true_iff_owner_kind:
  "Filter k obj =
     (if obj = ConsumerGroupPtr None then Inl NilPointerDereference
      else Inr (\<exists>cg. obj = ConsumerGroupPtr (Some cg) \<and>
                  (\<exists>r \<in> set (OwnerReferences cg). ToLower (Kind r) = ToLower k)))"
proof (cases obj)
  case NilInterface
  then show ?thesis by (simp add: Filter_def)
next
  case (ConsumerGroupPtr p)
  then show ?thesis
    by (cases p) (simp_all add: Filter_def filterLoop_iff)
next
  case (OtherObject ty)
  then show ?thesis by (simp add: Filter_def)
qed

theorem Filter_true_iff_owner_kind_witness:
  "Filter ''KafkaSource''
     (ConsumerGroupPtr (Some \<lparr>Namespace = ''ns'',
        OwnerReferences = [\<lparr>Kind = ''Deployment'', Name = ''d''\<rparr>,
                           \<lparr>Kind = ''KAFKASOURCE'', Name = ''src''\<rparr>]\<rparr>)) = Inr True
   \<and> Filter ''KafkaSource''
     (ConsumerGroupPtr (Some \<lparr>Namespace = ''ns'',
        OwnerReferences = [\<lparr>Kind = ''kafkasource'', Name = ''src''\<rparr>]\<rparr>)) = Inr True
   \<and> Filter ''KafkaSource''
     (ConsumerGroupPtr (Some \<lparr>Namespace = ''ns'',
        OwnerReferences = [\<lparr>Kind = ''Trigger'', Name = ''KafkaSource''\<rparr>]\<rparr>)) = Inr False"
proof -
  have l: "ToLower ''Deployment'' = ''deployment''" by code_simp
  show ?thesis
    by (simp add: Filter_true_iff_owner_kind ToLower_examples l)
qed

text \<open>
  C4. For every owning kind \<open>k\<close>, every callback \<open>enqueue\<close> and every ConsumerGroup, the
  function \<open>Enqueue k enqueue\<close> calls \<open>enqueue\<close> once for each owner reference whose lowercased kind equals the lowercased
  \<open>k\<close>, in the order of the list, with the key made of the ConsumerGroup's namespace and the
  reference's name: the queue it leaves is the queue folded over those keys, a sink that
  records its calls holds exactly those keys, and with no matching reference the queue is
  the one it was given.
\<close>

theorem Enqueue_one_call_per_matching_owner:
  "Enqueue k (Some enqueue) (ConsumerGroupPtr (Some cg)) q =
     Inr (foldl (\<lambda>acc key. enqueue key acc) q (matching_keys k cg))
   \<and> Enqueue k (Some record_key) (ConsumerGroupPtr (Some cg)) [] = Inr (matching_keys k cg)
   \<and> matching_keys k cg =
       map (\<lambda>r. \<lparr>KeyNamespace = Namespace cg, KeyName = Name r\<rparr>)
         (filter (\<lambda>r. ToLower (Kind r) = ToLower k) (OwnerReferences cg))
   \<and> ((\<forall>r \<in> set (OwnerReferences cg). ToLower (Kind r) \<noteq> ToLower k) \<longrightarrow>
        Enqueue k (Some enqueue) (ConsumerGroupPtr (Some cg)) q = Inr q)"
proof -
  have general: "\<And>(f :: NamespacedName \<Rightarrow> 'b \<Rightarrow> 'b) q0.
      Enqueue k (Some f) (ConsumerGroupPtr (Some cg)) q0 =
        Inr (foldl (\<lambda>acc key. f key acc) q0 (matching_keys k cg))"
    by (simp add: Enqueue_def enqueueLoop_fold matching_keys_def)
  have none: "(\<forall>r \<in> set (OwnerReferences cg). ToLower (Kind r) \<noteq> ToLower k) \<Longrightarrow>
      matching_keys k cg = []"
    by (simp add: matching_keys_def filter_empty_conv)
  show ?thesis
    using none by (auto simp: general foldl_record_key matching_keys_def)
qed

theorem Enqueue_one_call_per_matching_owner_witness:
  "Enqueue ''Trigger'' (Some record_key)
     (ConsumerGroupPtr (Some \<lparr>Namespace = ''ns'',
        OwnerReferences = [\<lparr>Kind = ''Trigger'', Name = ''a''\<rparr>,
                           \<lparr>Kind = ''KafkaSource'', Name = ''x''\<rparr>,
                           \<lparr>Kind = ''Trigger'', Name = ''b''\<rparr>]\<rparr>)) []
     = Inr [\<lparr>KeyNamespace = ''ns'', KeyName = ''a''\<rparr>, \<lparr>KeyNamespace = ''ns'', KeyName = ''b''\<rparr>]
   \<and> Enqueue ''Trigger'' (Some record_key)
     (ConsumerGroupPtr (Some \<lparr>Namespace = ''ns'',
        OwnerReferences = [\<lparr>Kind = ''KafkaSource'', Name = ''x''\<rparr>]\<rparr>))
     [\<lparr>KeyNamespace = ''old'', KeyName = ''key''\<rparr>]
     = Inr [\<lparr>KeyNamespace = ''old'', KeyName = ''key''\<rparr>]"
proof -
  let ?cg1 = "\<lparr>Namespace = ''ns'',
        OwnerReferences = [\<lparr>Kind = ''Trigger'', Name = ''a''\<rparr>,
                           \<lparr>Kind = ''KafkaSource'', Name = ''x''\<rparr>,
                           \<lparr>Kind = ''Trigger'', Name = ''b''\<rparr>]\<rparr>"
  let ?cg2 = "\<lparr>Namespace = ''ns'',
        OwnerReferences = [\<lparr>Kind = ''KafkaSource'', Name = ''x''\<rparr>]\<rparr>"
  let ?q = "[\<lparr>KeyNamespace = ''old'', KeyName = ''key''\<rparr>]"
  have nomatch: "\<forall>r \<in> set (OwnerReferences ?cg2). ToLower (Kind r) \<noteq> ToLower ''Trigger''"
    by (simp add: ToLower_examples)
  have first: "Enqueue ''Trigger'' (Some record_key) (ConsumerGroupPtr (Some ?cg1)) [] =
      Inr (matching_keys ''Trigger'' ?cg1)"
    using Enqueue_one_call_per_matching_owner [of "''Trigger''" record_key ?cg1 "[]"]
    by blast
  have second: "Enqueue ''Trigger'' (Some record_key) (ConsumerGroupPtr (Some ?cg2)) ?q =
      Inr ?q"
    using Enqueue_one_call_per_matching_owner [of "''Trigger''" record_key ?cg2 ?q] nomatch
    by blast
  have keys: "matching_keys ''Trigger'' ?cg1 =
      [\<lparr>KeyNamespace = ''ns'', KeyName = ''a''\<rparr>, \<lparr>KeyNamespace = ''ns'', KeyName = ''b''\<rparr>]"
    by (simp add: matching_keys_def ToLower_examples)
  show ?thesis
    using first second keys by simp
qed

text \<open>
  C7. For every object that is not a ConsumerGroup (the nil interface, or a value of any
  other type), the predicate of \<open>Filter\<close> returns false and the function of \<open>Enqueue\<close>
  returns without a call of \<open>enqueue\<close>: the queue is unchanged whatever \<open>enqueue\<close> is (a nil
  function value too), and the recording sink has recorded nothing. Neither panics.
\<close>

theorem not_ConsumerGroup_no_match:
  assumes "\<forall>p. obj \<noteq> ConsumerGroupPtr p"
  shows "Filter k obj = Inr False
    \<and> Enqueue k enqueue obj q = Inr q
    \<and> Enqueue k (Some record_key) obj [] = Inr []"
  using assertConsumerGroup_other [OF assms]
  by (simp add: Filter_def Enqueue_def)

theorem not_ConsumerGroup_no_match_witness:
  "(\<forall>p. OtherObject ''*v1.Deployment'' \<noteq> ConsumerGroupPtr p)
   \<and> Filter ''KafkaSource'' (OtherObject ''*v1.Deployment'') = Inr False
   \<and> Enqueue ''KafkaSource'' (Some record_key) (OtherObject ''*v1.Deployment'') [] = Inr []
   \<and> Filter ''KafkaSource'' NilInterface = Inr False
   \<and> Enqueue ''KafkaSource'' (Some record_key) NilInterface [] = Inr []"
proof -
  have h1: "\<forall>p. OtherObject ''*v1.Deployment'' \<noteq> ConsumerGroupPtr p" by simp
  have h2: "\<forall>p. NilInterface \<noteq> ConsumerGroupPtr p" by simp
  show ?thesis
    using h1 not_ConsumerGroup_no_match [OF h1, of "''KafkaSource''" "Some record_key" "[]"]
      not_ConsumerGroup_no_match [OF h2, of "''KafkaSource''" "Some record_key" "[]"]
    by simp
qed

section \<open>Properties of the availability predicate\<close>

lemma availableLoop_find:
  "availableLoop conds def =
     (case find (\<lambda>c. DCType c = DeploymentAvailable) conds of
        None \<Rightarrow> def
      | Some c \<Rightarrow> DCStatus c = ''True'')"
  by (induction conds) auto

lemma availableLoop_none:
  "(\<forall>c \<in> set conds. DCType c \<noteq> DeploymentAvailable) \<Longrightarrow> availableLoop conds def = def"
  by (induction conds) auto

lemma availableLoop_some:
  "find (\<lambda>c. DCType c = DeploymentAvailable) conds = Some c \<Longrightarrow>
     availableLoop conds def = (DCStatus c = ''True'')"
  by (simp add: availableLoop_find)

lemma availableLoop_ignores_default:
  "\<exists>c \<in> set conds. DCType c = DeploymentAvailable \<Longrightarrow>
     availableLoop conds True = availableLoop conds False"
  by (induction conds) auto

text \<open>
  C6, as stated, fails: with a condition of type DeploymentAvailable whose status is
  \<open>True\<close> and the default \<open>true\<close>, the function returns \<open>true\<close>, which is the default, although
  a condition of the type is in the list.
\<close>

theorem DeploymentIsAvailable_returns_def_with_condition:
  "DeploymentIsAvailable
     (Some \<lparr>Replicas = 1,
        DeploymentConditions = [\<lparr>DCType = ''Available'', DCStatus = ''True''\<rparr>]\<rparr>) True
     = Inr True
   \<and> \<lparr>DCType = ''Available'', DCStatus = ''True''\<rparr> \<in>
       set (DeploymentConditions \<lparr>Replicas = 1,
          DeploymentConditions = [\<lparr>DCType = ''Available'', DCStatus = ''True''\<rparr>]\<rparr>)
   \<and> DCType \<lparr>DCType = ''Available'', DCStatus = ''True''\<rparr> = DeploymentAvailable"
  by (simp add: DeploymentIsAvailable_def DeploymentAvailable_def)

text \<open>
  C6, amended. For every deployment status \<open>d\<close> and default \<open>def\<close>: if no condition of \<open>d\<close>
  has the type DeploymentAvailable, \<open>DeploymentIsAvailable\<close> returns \<open>def\<close>; otherwise it
  returns whether the first condition of that type has the status \<open>True\<close> (a value that
  may be equal to \<open>def\<close>). It returns the default for every choice of the default if and
  only if no condition has the type.
\<close>

theorem DeploymentIsAvailable_first_condition_decides:
  "((\<forall>c \<in> set (DeploymentConditions d). DCType c \<noteq> DeploymentAvailable) \<longrightarrow>
       DeploymentIsAvailable (Some d) def = Inr def)
   \<and> (find (\<lambda>c. DCType c = DeploymentAvailable) (DeploymentConditions d) = Some c \<longrightarrow>
       DeploymentIsAvailable (Some d) def = Inr (DCStatus c = ''True''))
   \<and> ((\<forall>b. DeploymentIsAvailable (Some d) b = Inr b) =
       (\<forall>c \<in> set (DeploymentConditions d). DCType c \<noteq> DeploymentAvailable))"
proof -
  have a: "(\<forall>c \<in> set (DeploymentConditions d). DCType c \<noteq> DeploymentAvailable) \<Longrightarrow>
      DeploymentIsAvailable (Some d) b = Inr b" for b
    by (simp add: DeploymentIsAvailable_def availableLoop_none)
  have b: "find (\<lambda>c. DCType c = DeploymentAvailable) (DeploymentConditions d) = Some c \<Longrightarrow>
       DeploymentIsAvailable (Some d) def = Inr (DCStatus c = ''True'')"
    by (simp add: DeploymentIsAvailable_def availableLoop_some)
  have c: "\<exists>b. DeploymentIsAvailable (Some d) b \<noteq> Inr b"
    if "\<exists>c \<in> set (DeploymentConditions d). DCType c = DeploymentAvailable"
  proof -
    from availableLoop_ignores_default [OF that]
    have "availableLoop (DeploymentConditions d) True \<noteq> True \<or>
          availableLoop (DeploymentConditions d) False \<noteq> False" by auto
    then show ?thesis
      by (auto simp: DeploymentIsAvailable_def)
  qed
  show ?thesis using a b c by blast
qed

theorem DeploymentIsAvailable_first_condition_decides_witness:
  "find (\<lambda>c. DCType c = DeploymentAvailable)
        (DeploymentConditions (DStatus unavailableDeployment)) = None
   \<and> DeploymentIsAvailable (Some (DStatus unavailableDeployment)) True = Inr True
   \<and> DeploymentIsAvailable (Some (DStatus unavailableDeployment)) False = Inr False
   \<and> find (\<lambda>c. DCType c = DeploymentAvailable)
        (DeploymentConditions (DStatus availableDeployment)) =
        Some \<lparr>DCType = ''Available'', DCStatus = ''True''\<rparr>
   \<and> DeploymentIsAvailable (Some (DStatus availableDeployment)) False = Inr True"
proof -
  have h1: "\<forall>c \<in> set (DeploymentConditions (DStatus unavailableDeployment)).
      DCType c \<noteq> DeploymentAvailable"
    by (simp add: unavailableDeployment_def DeploymentAvailable_def)
  have h2: "find (\<lambda>c. DCType c = DeploymentAvailable)
        (DeploymentConditions (DStatus availableDeployment)) =
        Some \<lparr>DCType = ''Available'', DCStatus = ''True''\<rparr>"
    by (simp add: availableDeployment_def DeploymentAvailable_def)
  from DeploymentIsAvailable_first_condition_decides
         [of "DStatus unavailableDeployment" True]
       DeploymentIsAvailable_first_condition_decides
         [of "DStatus unavailableDeployment" False]
       DeploymentIsAvailable_first_condition_decides
         [of "DStatus availableDeployment" False
             "\<lparr>DCType = ''Available'', DCStatus = ''True''\<rparr>"]
       h1 h2
  show ?thesis by (simp add: find_None_iff)
qed

section \<open>Properties of the condition manager\<close>

lemma Sprintf_deployment:
  "Sprintf ''The Deployment '%s' is unavailable.'' [n] =
     ''The Deployment '' @ [CHR 0x27] @ n @ [CHR 0x27] @ '' is unavailable.''"
  by simp

lemma SetCondition_apply:
  "SetCondition conds c now t =
     (if t = Type c then
        Some (c\<lparr>LastTransitionTime :=
          (case conds (Type c) of
             None \<Rightarrow> now
           | Some old \<Rightarrow> if Status old = Status c then LastTransitionTime old else now)\<rparr>)
      else conds t)"
  by (simp add: SetCondition_def)

lemma happy_Kafka: "happy KafkaSourceCondSet = ''Ready''"
  by (simp add: KafkaSourceCondSet_def NewLivingConditionSet_def ConditionReady_def)

lemma dependents_declared:
  "dependents KafkaSourceCondSet =
     [KafkaConditionSinkProvided, KafkaConditionDeployed,
      KafkaConditionConnectionEstablished, KafkaConditionInitialOffsetsCommitted,
      KafkaConditionOIDCIdentityCreated]"
  by (simp add: KafkaSourceCondSet_def NewLivingConditionSet_def)

lemma dependents_Kafka:
  "dependents KafkaSourceCondSet =
     [''SinkProvided'', ''Deployed'', ''ConnectionEstablished'', ''InitialOffsetsCommitted'',
      ''OIDCIdentityCreated'']"
  by (simp add: KafkaSourceCondSet_def NewLivingConditionSet_def
      KafkaConditionSinkProvided_def KafkaConditionDeployed_def
      KafkaConditionConnectionEstablished_def KafkaConditionInitialOffsetsCommitted_def
      KafkaConditionOIDCIdentityCreated_def)

lemma happy_not_dependent: "happy KafkaSourceCondSet \<notin> set (dependents KafkaSourceCondSet)"
  by (simp add: happy_Kafka dependents_Kafka)

lemma not_happy:
  "KafkaConditionSinkProvided \<noteq> happy KafkaSourceCondSet"
  "KafkaConditionDeployed \<noteq> happy KafkaSourceCondSet"
  by (simp_all add: happy_Kafka KafkaConditionSinkProvided_def KafkaConditionDeployed_def)

lemma recompute_other:
  "t \<noteq> happy cs \<Longrightarrow> recomputeAggregate cs conds now t = conds t"
  by (simp add: recomputeAggregate_def SetCondition_apply split: prod.splits)

lemma recompute_happy:
  "\<exists>c. recomputeAggregate cs conds now (happy cs) = Some c \<and>
     Status c = fst (aggregateOf cs conds) \<and>
     Reason c = fst (snd (aggregateOf cs conds)) \<and>
     Message c = snd (snd (aggregateOf cs conds))"
  by (simp add: recomputeAggregate_def SetCondition_apply split: prod.splits)

lemma Mark_get:
  "t \<noteq> happy cs \<Longrightarrow>
     \<exists>c. Manage_MarkTrue cs conds t now t = Some c \<and> Status c = ConditionTrue"
  "t \<noteq> happy cs \<Longrightarrow>
     \<exists>c. Manage_MarkUnknown cs conds t reason f a now t = Some c \<and>
       Status c = ConditionUnknown \<and> Reason c = reason \<and> Message c = Sprintf f a"
  "t \<noteq> happy cs \<Longrightarrow>
     \<exists>c. Manage_MarkFalse cs conds t reason f a now t = Some c \<and>
       Status c = ConditionFalse \<and> Reason c = reason \<and> Message c = Sprintf f a"
  by (simp_all add: Manage_MarkTrue_def Manage_MarkUnknown_def Manage_MarkFalse_def
      recompute_other SetCondition_apply)

lemma aggregate_unresolved:
  "find (unresolved conds) (dependents cs) = Some t \<Longrightarrow>
     aggregateOf cs conds = (ConditionUnknown, reasonOf (conds t), messageOf (conds t))"
  by (simp add: aggregateOf_def)

lemma find_unresolved_recompute:
  assumes "happy cs \<notin> set (dependents cs)"
  shows "find (unresolved (recomputeAggregate cs conds now)) (dependents cs) =
         find (unresolved conds) (dependents cs)"
proof (rule find_cong)
  show "dependents cs = dependents cs" by simp
next
  fix t assume "t \<in> set (dependents cs)"
  with assms have "t \<noteq> happy cs" by auto
  then show "unresolved (recomputeAggregate cs conds now) t = unresolved conds t"
    by (simp add: unresolved_def recompute_other)
qed

lemma recompute_Unknown:
  assumes nd: "happy cs \<notin> set (dependents cs)"
    and f: "find (unresolved (recomputeAggregate cs conds now)) (dependents cs) = Some t"
  shows "\<exists>r. recomputeAggregate cs conds now (happy cs) = Some r \<and>
           Status r = ConditionUnknown \<and>
           Reason r = reasonOf (recomputeAggregate cs conds now t) \<and>
           Message r = messageOf (recomputeAggregate cs conds now t)"
proof -
  from f nd have f0: "find (unresolved conds) (dependents cs) = Some t"
    by (simp add: find_unresolved_recompute)
  then have "t \<in> set (dependents cs)"
    by (auto simp: find_Some_iff)
  with nd have ne: "t \<noteq> happy cs" by auto
  from recompute_happy [of cs conds now] aggregate_unresolved [OF f0] ne
  show ?thesis by (auto simp: recompute_other)
qed

section \<open>Properties of the mark operations\<close>

lemma MarkSink_resolved:
  "URL addr = Some u \<Longrightarrow> u \<noteq> [] \<Longrightarrow>
     MarkSink s (Some addr) now =
       Inr (s\<lparr>SinkURI := URL addr, SinkCACerts := CACerts addr,
              SinkAudience := Audience addr,
              Conditions := Manage_MarkTrue KafkaSourceCondSet (Conditions s)
                KafkaConditionSinkProvided now\<rparr>)"
  by (simp add: MarkSink_def Let_def)

lemma MarkSink_unresolved:
  "URL addr = None \<or> URL addr = Some [] \<Longrightarrow>
     MarkSink s (Some addr) now =
       Inr (s\<lparr>Conditions := Manage_MarkUnknown KafkaSourceCondSet (Conditions s)
                KafkaConditionSinkProvided ''SinkEmpty''
                ''Sink has resolved to empty.%s'' [[]] now\<rparr>)"
  by (auto simp: MarkSink_def)

lemma MarkDeployed_available:
  "availableLoop (DeploymentConditions (DStatus d)) False \<Longrightarrow>
     MarkDeployed s (Some d) now =
       Inr (s\<lparr>Conditions := Manage_MarkTrue KafkaSourceCondSet (Conditions s)
                KafkaConditionDeployed now,
              Consumers := Replicas (DStatus d)\<rparr>)"
  by (simp add: MarkDeployed_def DeploymentIsAvailable_def Let_def)

lemma MarkDeployed_unavailable:
  "\<not> availableLoop (DeploymentConditions (DStatus d)) False \<Longrightarrow>
     MarkDeployed s (Some d) now =
       Inr (s\<lparr>Conditions := Manage_MarkFalse KafkaSourceCondSet (Conditions s)
                KafkaConditionDeployed ''DeploymentUnavailable''
                ''The Deployment '%s' is unavailable.'' [DeploymentName d] now\<rparr>)"
  by (simp add: MarkDeployed_def DeploymentIsAvailable_def)

lemma MarkSink_cases:
  "\<exists>s'. MarkSink s (Some addr) now = Inr s' \<and>
     (if \<exists>u. URL addr = Some u \<and> u \<noteq> [] then
        (\<exists>c. GetCondition s' KafkaConditionSinkProvided = Some c \<and> Status c = ConditionTrue)
        \<and> SinkURI s' = URL addr \<and> SinkCACerts s' = CACerts addr
        \<and> SinkAudience s' = Audience addr
      else
        (\<exists>c. GetCondition s' KafkaConditionSinkProvided = Some c \<and>
           Status c = ConditionUnknown \<and> Reason c = ''SinkEmpty''))"
proof (cases "\<exists>u. URL addr = Some u \<and> u \<noteq> []")
  case True
  then obtain u where u: "URL addr = Some u" "u \<noteq> []" by blast
  from Mark_get(1) [OF not_happy(1), of "Conditions s" now]
  obtain c where "Manage_MarkTrue KafkaSourceCondSet (Conditions s)
      KafkaConditionSinkProvided now KafkaConditionSinkProvided = Some c"
      "Status c = ConditionTrue" by blast
  with True show ?thesis
    by (simp add: MarkSink_resolved [OF u] GetCondition_def Manage_GetCondition_def)
next
  case False
  then have e: "URL addr = None \<or> URL addr = Some []"
    by (cases "URL addr") auto
  from Mark_get(2) [OF not_happy(1), of "Conditions s" "''SinkEmpty''"
      "''Sink has resolved to empty.%s''" "[[]]" now]
  obtain c where "Manage_MarkUnknown KafkaSourceCondSet (Conditions s)
      KafkaConditionSinkProvided ''SinkEmpty'' ''Sink has resolved to empty.%s'' [[]] now
      KafkaConditionSinkProvided = Some c"
      "Status c = ConditionUnknown" "Reason c = ''SinkEmpty''" by blast
  with False show ?thesis
    by (simp add: MarkSink_unresolved [OF e] GetCondition_def Manage_GetCondition_def)
qed

text \<open>
  C2. For every addressable, \<open>MarkSink\<close> returns a status in which the condition
  SinkProvided is True if and only if the URL of the address is present and not empty; in
  that case the URL, the CA certificates and the audience of the address are the status's
  SinkURI, SinkCACerts and SinkAudience, and otherwise SinkProvided is Unknown (not False)
  with the reason \<open>SinkEmpty\<close>.
\<close>

theorem MarkSink_provided_iff_url_present:
  "\<exists>s'. MarkSink s (Some addr) now = Inr s' \<and>
     ((\<exists>c. GetCondition s' KafkaConditionSinkProvided = Some c \<and> Status c = ConditionTrue) =
      (\<exists>u. URL addr = Some u \<and> u \<noteq> [])) \<and>
     (if \<exists>u. URL addr = Some u \<and> u \<noteq> [] then
        SinkURI s' = URL addr \<and> SinkCACerts s' = CACerts addr \<and>
        SinkAudience s' = Audience addr
      else
        (\<exists>c. GetCondition s' KafkaConditionSinkProvided = Some c \<and>
           Status c = ConditionUnknown \<and> Reason c = ''SinkEmpty''))"
  using MarkSink_cases [of s addr now] by (auto split: if_splits)

theorem MarkSink_provided_iff_url_present_witness:
  "(\<exists>s'. MarkSink freshStatus (Some sinkAddress) 1 = Inr s' \<and>
      (\<exists>c. GetCondition s' KafkaConditionSinkProvided = Some c \<and> Status c = ConditionTrue) \<and>
      SinkURI s' = Some ''http://sink.example'' \<and> SinkCACerts s' = Some ''ca'' \<and>
      SinkAudience s' = Some ''aud'')
   \<and> (\<exists>s'. MarkSink freshStatus (Some emptyAddress) 1 = Inr s' \<and>
      (\<exists>c. GetCondition s' KafkaConditionSinkProvided = Some c \<and>
         Status c = ConditionUnknown \<and> Reason c = ''SinkEmpty''))"
proof -
  have a: "\<exists>s'. MarkSink freshStatus (Some sinkAddress) 1 = Inr s' \<and>
      (\<exists>c. GetCondition s' KafkaConditionSinkProvided = Some c \<and> Status c = ConditionTrue) \<and>
      SinkURI s' = Some ''http://sink.example'' \<and> SinkCACerts s' = Some ''ca'' \<and>
      SinkAudience s' = Some ''aud''"
    using MarkSink_provided_iff_url_present [of freshStatus sinkAddress 1]
    by (simp add: sinkAddress_def)
  have b: "\<exists>s'. MarkSink freshStatus (Some emptyAddress) 1 = Inr s' \<and>
      (\<exists>c. GetCondition s' KafkaConditionSinkProvided = Some c \<and>
         Status c = ConditionUnknown \<and> Reason c = ''SinkEmpty'')"
    using MarkSink_provided_iff_url_present [of freshStatus emptyAddress 1]
    by (auto simp: emptyAddress_def)
  from a b show ?thesis by blast
qed

text \<open>
  C5. For every deployment \<open>d\<close>, \<open>MarkDeployed\<close> returns a status in which, if the
  availability predicate holds on the status of \<open>d\<close> with the default false, the condition
  Deployed is True and Consumers is the replica count of \<open>d\<close>, and otherwise Deployed is
  False with the reason \<open>DeploymentUnavailable\<close> and a message that holds the name of \<open>d\<close>
  between quotes.
\<close>

theorem MarkDeployed_follows_availability:
  "\<exists>s'. MarkDeployed s (Some d) now = Inr s' \<and>
     (if DeploymentIsAvailable (Some (DStatus d)) False = Inr True then
        (\<exists>c. GetCondition s' KafkaConditionDeployed = Some c \<and> Status c = ConditionTrue)
        \<and> Consumers s' = Replicas (DStatus d)
      else
        (\<exists>c. GetCondition s' KafkaConditionDeployed = Some c \<and>
           Status c = ConditionFalse \<and> Reason c = ''DeploymentUnavailable'' \<and>
           Message c = ''The Deployment '' @ [CHR 0x27] @ DeploymentName d @ [CHR 0x27] @
             '' is unavailable.''))"
proof (cases "availableLoop (DeploymentConditions (DStatus d)) False")
  case True
  from Mark_get(1) [OF not_happy(2), of "Conditions s" now]
  obtain c where "Manage_MarkTrue KafkaSourceCondSet (Conditions s)
      KafkaConditionDeployed now KafkaConditionDeployed = Some c"
      "Status c = ConditionTrue" by blast
  with True show ?thesis
    by (simp add: MarkDeployed_available [OF True] DeploymentIsAvailable_def
        GetCondition_def Manage_GetCondition_def)
next
  case False
  from Mark_get(3) [OF not_happy(2), of "Conditions s" "''DeploymentUnavailable''"
      "''The Deployment '%s' is unavailable.''" "[DeploymentName d]" now]
  obtain c where c: "Manage_MarkFalse KafkaSourceCondSet (Conditions s)
      KafkaConditionDeployed ''DeploymentUnavailable''
      ''The Deployment '%s' is unavailable.'' [DeploymentName d] now
      KafkaConditionDeployed = Some c"
      "Status c = ConditionFalse" "Reason c = ''DeploymentUnavailable''"
      "Message c = Sprintf ''The Deployment '%s' is unavailable.'' [DeploymentName d]"
    by blast
  from c(4) have m: "Message c = ''The Deployment '' @ [CHR 0x27] @ DeploymentName d @
      [CHR 0x27] @ '' is unavailable.''"
    by (simp only: Sprintf_deployment)
  have "GetCondition (s\<lparr>Conditions := Manage_MarkFalse KafkaSourceCondSet (Conditions s)
                KafkaConditionDeployed ''DeploymentUnavailable''
                ''The Deployment '%s' is unavailable.'' [DeploymentName d] now\<rparr>)
      KafkaConditionDeployed = Some c"
    using c(1) by (simp add: GetCondition_def Manage_GetCondition_def)
  with c(2,3) m False show ?thesis
    unfolding MarkDeployed_unavailable [OF False]
    by (auto simp: DeploymentIsAvailable_def)
qed

theorem MarkDeployed_follows_availability_witness:
  "(\<exists>s'. MarkDeployed freshStatus (Some availableDeployment) 1 = Inr s' \<and>
      (\<exists>c. GetCondition s' KafkaConditionDeployed = Some c \<and> Status c = ConditionTrue) \<and>
      Consumers s' = 3)
   \<and> (\<exists>s'. MarkDeployed freshStatus (Some unavailableDeployment) 1 = Inr s' \<and>
      (\<exists>c. GetCondition s' KafkaConditionDeployed = Some c \<and> Status c = ConditionFalse \<and>
         Reason c = ''DeploymentUnavailable'' \<and>
         Message c = ''The Deployment 'adapter' is unavailable.''))"
proof -
  have a: "DeploymentIsAvailable (Some (DStatus availableDeployment)) False = Inr True"
    by (simp add: DeploymentIsAvailable_def availableDeployment_def DeploymentAvailable_def)
  have b: "DeploymentIsAvailable (Some (DStatus unavailableDeployment)) False \<noteq> Inr True"
    by (simp add: DeploymentIsAvailable_def unavailableDeployment_def DeploymentAvailable_def)
  have r: "Replicas (DStatus availableDeployment) = 3"
    "DeploymentName unavailableDeployment = ''adapter''"
    by (simp_all add: availableDeployment_def unavailableDeployment_def)
  from MarkDeployed_follows_availability [of freshStatus availableDeployment 1]
       MarkDeployed_follows_availability [of freshStatus unavailableDeployment 1]
  show ?thesis
    by (simp add: a b r)
qed

text \<open>
  C10. For every status, \<open>MarkSink\<close> with an addressable whose URL is nil or empty leaves
  SinkURI, SinkCACerts and SinkAudience as they were, so that the data of a sink resolved
  earlier stays in the status, while the condition SinkProvided becomes Unknown.
\<close>

theorem MarkSink_empty_keeps_sink_fields:
  assumes "URL addr = None \<or> URL addr = Some []"
  shows "\<exists>s'. MarkSink s (Some addr) now = Inr s' \<and>
     SinkURI s' = SinkURI s \<and> SinkCACerts s' = SinkCACerts s \<and>
     SinkAudience s' = SinkAudience s \<and>
     (\<exists>c. GetCondition s' KafkaConditionSinkProvided = Some c \<and> Status c = ConditionUnknown)"
proof -
  from Mark_get(2) [OF not_happy(1), of "Conditions s" "''SinkEmpty''"
      "''Sink has resolved to empty.%s''" "[[]]" now]
  obtain c where "Manage_MarkUnknown KafkaSourceCondSet (Conditions s)
      KafkaConditionSinkProvided ''SinkEmpty'' ''Sink has resolved to empty.%s'' [[]] now
      KafkaConditionSinkProvided = Some c"
      "Status c = ConditionUnknown" by blast
  then show ?thesis
    by (simp add: MarkSink_unresolved [OF assms] GetCondition_def Manage_GetCondition_def)
qed

theorem MarkSink_empty_keeps_sink_fields_witness:
  "(URL emptyAddress = None \<or> URL emptyAddress = Some [])
   \<and> (\<exists>s'. MarkSink staleStatus (Some emptyAddress) 1 = Inr s' \<and>
        SinkURI s' = Some ''http://old.example'' \<and> SinkCACerts s' = Some ''old-ca'' \<and>
        SinkAudience s' = Some ''old-aud'' \<and>
        (\<exists>c. GetCondition s' KafkaConditionSinkProvided = Some c \<and>
           Status c = ConditionUnknown))"
proof -
  have h: "URL emptyAddress = None \<or> URL emptyAddress = Some []"
    by (simp add: emptyAddress_def)
  from MarkSink_empty_keeps_sink_fields [OF h, of staleStatus 1] h show ?thesis
    by (simp add: staleStatus_def)
qed

section \<open>The aggregate after a mark operation\<close>

lemma runMark_recomputed:
  "runMark call s now = Inr s' \<Longrightarrow>
     \<exists>conds. Conditions s' = recomputeAggregate KafkaSourceCondSet conds now"
proof (cases call)
  case (CallMarkSink addr)
  assume "runMark call s now = Inr s'"
  with CallMarkSink show ?thesis
    by (auto simp: MarkSink_def Manage_MarkTrue_def Manage_MarkUnknown_def Let_def
        split: option.splits if_splits)
next
  case (CallMarkDeployed d)
  assume "runMark call s now = Inr s'"
  with CallMarkDeployed show ?thesis
    by (auto simp: MarkDeployed_def DeploymentIsAvailable_def Manage_MarkTrue_def
        Manage_MarkFalse_def Let_def split: option.splits if_splits)
qed (auto simp: MarkNoSink_def MarkDeploying_def MarkNotDeployed_def MarkKeyTypeCorrect_def
      MarkKeyTypeIncorrect_def MarkConnectionEstablished_def MarkConnectionNotEstablished_def
      MarkInitialOffsetCommitted_def MarkInitialOffsetNotCommitted_def
      MarkOIDCIdentityCreatedSucceeded_def MarkOIDCIdentityCreatedSucceededWithReason_def
      MarkOIDCIdentityCreatedFailed_def MarkOIDCIdentityCreatedUnknown_def
      Manage_MarkTrue_def Manage_MarkFalse_def Manage_MarkUnknown_def
      Manage_MarkTrueWithReason_def)

lemma exampleStatus_MarkDeploying:
  "Conditions (MarkDeploying exampleStatus ''Rollout'' ''waiting for %s'' [''pods''] 3) =
     (Conditions exampleStatus)
       (''Deployed'' \<mapsto> \<lparr>Type = ''Deployed'', Status = ConditionUnknown,
           Severity = ConditionSeverityError, Reason = ''Rollout'',
           Message = ''waiting for pods'', LastTransitionTime = 3\<rparr>,
        ''Ready'' \<mapsto> \<lparr>Type = ''Ready'', Status = ConditionUnknown,
           Severity = ConditionSeverityError, Reason = ''Rollout'',
           Message = ''waiting for pods'', LastTransitionTime = 3\<rparr>)"
  by (simp add: MarkDeploying_def Manage_MarkUnknown_def recomputeAggregate_def
      aggregateOf_def SetCondition_def happy_Kafka dependents_Kafka exampleStatus_def
      freshStatus_def unresolved_def failed_def severity_def KafkaConditionDeployed_def
      reasonOf_def messageOf_def)

text \<open>
  C1. For every status and every mark operation that returns: if, in the status it
  returns, one of the five declared dependents (SinkProvided, Deployed,
  ConnectionEstablished, InitialOffsetsCommitted, OIDCIdentityCreated) is absent or
  Unknown, then the aggregate Ready is Unknown, whatever the other dependents are, its
  reason and message are those of the first such dependent in the order of declaration
  (empty when that dependent is absent), and \<open>IsReady\<close> is false.
\<close>

theorem aggregate_Unknown_if_dependent_unresolved:
  assumes run: "runMark call s now = Inr s'"
    and some: "t \<in> set [KafkaConditionSinkProvided, KafkaConditionDeployed,
                 KafkaConditionConnectionEstablished, KafkaConditionInitialOffsetsCommitted,
                 KafkaConditionOIDCIdentityCreated]"
    and unres: "GetCondition s' t = None \<or>
                (\<exists>c. GetCondition s' t = Some c \<and> Status c = ConditionUnknown)"
  shows "\<exists>first r.
           find (unresolved (Conditions s'))
             [KafkaConditionSinkProvided, KafkaConditionDeployed,
              KafkaConditionConnectionEstablished, KafkaConditionInitialOffsetsCommitted,
              KafkaConditionOIDCIdentityCreated] = Some first \<and>
           GetCondition s' KafkaConditionReady = Some r \<and>
           Status r = ConditionUnknown \<and>
           Reason r = reasonOf (GetCondition s' first) \<and>
           Message r = messageOf (GetCondition s' first) \<and>
           \<not> IsReady s'"
proof -
  from unres have u: "unresolved (Conditions s') t"
    by (auto simp: unresolved_def GetCondition_def Manage_GetCondition_def)
  from some have mem: "t \<in> set (dependents KafkaSourceCondSet)"
    by (simp only: dependents_declared)
  from mem u obtain first where
    f: "find (unresolved (Conditions s')) (dependents KafkaSourceCondSet) = Some first"
    by (cases "find (unresolved (Conditions s')) (dependents KafkaSourceCondSet)")
       (auto simp: find_None_iff)
  from runMark_recomputed [OF run] obtain conds where
    c: "Conditions s' = recomputeAggregate KafkaSourceCondSet conds now" by blast
  from recompute_Unknown [OF happy_not_dependent, of conds now first] f c
  obtain r where r: "Conditions s' (happy KafkaSourceCondSet) = Some r"
    "Status r = ConditionUnknown" "Reason r = reasonOf (Conditions s' first)"
    "Message r = messageOf (Conditions s' first)"
    by auto
  have ready: "KafkaConditionReady = happy KafkaSourceCondSet"
    by (simp add: KafkaConditionReady_def happy_Kafka ConditionReady_def)
  from r have nr: "\<not> IsReady s'"
    by (simp add: IsReady_def Manage_IsHappy_def)
  from f have f': "find (unresolved (Conditions s'))
             [KafkaConditionSinkProvided, KafkaConditionDeployed,
              KafkaConditionConnectionEstablished, KafkaConditionInitialOffsetsCommitted,
              KafkaConditionOIDCIdentityCreated] = Some first"
    by (simp only: dependents_declared)
  from f' r ready nr show ?thesis
    by (simp add: GetCondition_def Manage_GetCondition_def)
qed

theorem aggregate_Unknown_if_dependent_unresolved_witness:
  "runMark (CallMarkDeploying ''Rollout'' ''waiting for %s'' [''pods'']) exampleStatus 3 =
      Inr (MarkDeploying exampleStatus ''Rollout'' ''waiting for %s'' [''pods''] 3)
   \<and> failed (Conditions (MarkDeploying exampleStatus ''Rollout'' ''waiting for %s'' [''pods''] 3))
        KafkaConditionConnectionEstablished
   \<and> unresolved (Conditions (MarkDeploying exampleStatus ''Rollout'' ''waiting for %s'' [''pods''] 3))
        KafkaConditionDeployed
   \<and> (\<exists>r. GetCondition (MarkDeploying exampleStatus ''Rollout'' ''waiting for %s'' [''pods''] 3)
          KafkaConditionReady = Some r \<and> Status r = ConditionUnknown \<and>
          Reason r = ''Rollout'' \<and> Message r = ''waiting for pods'')
   \<and> \<not> IsReady (MarkDeploying exampleStatus ''Rollout'' ''waiting for %s'' [''pods''] 3)"
proof -
  let ?s' = "MarkDeploying exampleStatus ''Rollout'' ''waiting for %s'' [''pods''] 3"
  have run: "runMark (CallMarkDeploying ''Rollout'' ''waiting for %s'' [''pods''])
      exampleStatus 3 = Inr ?s'" by simp
  have mem: "KafkaConditionDeployed \<in> set [KafkaConditionSinkProvided, KafkaConditionDeployed,
                 KafkaConditionConnectionEstablished, KafkaConditionInitialOffsetsCommitted,
                 KafkaConditionOIDCIdentityCreated]"
    by simp
  have unres: "unresolved (Conditions ?s') KafkaConditionDeployed"
    by (simp add: exampleStatus_MarkDeploying unresolved_def KafkaConditionDeployed_def)
  then have unres': "GetCondition ?s' KafkaConditionDeployed = None \<or>
      (\<exists>c. GetCondition ?s' KafkaConditionDeployed = Some c \<and> Status c = ConditionUnknown)"
    by (auto simp: unresolved_def GetCondition_def Manage_GetCondition_def
        split: option.splits)
  have fl: "failed (Conditions ?s') KafkaConditionConnectionEstablished"
    unfolding exampleStatus_MarkDeploying
    by (simp add: failed_def KafkaConditionConnectionEstablished_def exampleStatus_def)
  have first: "find (unresolved (Conditions ?s'))
      [KafkaConditionSinkProvided, KafkaConditionDeployed,
       KafkaConditionConnectionEstablished, KafkaConditionInitialOffsetsCommitted,
       KafkaConditionOIDCIdentityCreated] = Some ''Deployed''"
    unfolding exampleStatus_MarkDeploying
    by (simp add: unresolved_def exampleStatus_def KafkaConditionSinkProvided_def
        KafkaConditionDeployed_def)
  have rm: "reasonOf (GetCondition ?s' ''Deployed'') = ''Rollout''"
    "messageOf (GetCondition ?s' ''Deployed'') = ''waiting for pods''"
    by (simp_all add: exampleStatus_MarkDeploying GetCondition_def Manage_GetCondition_def
        reasonOf_def messageOf_def)
  from aggregate_Unknown_if_dependent_unresolved [OF run mem unres'] first rm
  have "\<exists>r. GetCondition ?s' KafkaConditionReady = Some r \<and> Status r = ConditionUnknown \<and>
          Reason r = ''Rollout'' \<and> Message r = ''waiting for pods''"
     and "\<not> IsReady ?s'"
    by auto
  with run fl unres show ?thesis by blast
qed

section \<open>Initialisation\<close>

lemma initializeCondition_apply:
  "initializeCondition cs now t conds u =
     (if u = t \<and> conds t = None then
        Some \<lparr>Type = t, Status = ConditionUnknown, Severity = severity cs t,
              Reason = [], Message = [], LastTransitionTime = now\<rparr>
      else conds u)"
  by (simp add: initializeCondition_def SetCondition_apply split: option.splits)

lemma fold_initialize_apply:
  "fold (initializeCondition cs now) ts conds u =
     (case conds u of
        Some c \<Rightarrow> Some c
      | None \<Rightarrow>
          if u \<in> set ts then
            Some \<lparr>Type = u, Status = ConditionUnknown, Severity = severity cs u,
                  Reason = [], Message = [], LastTransitionTime = now\<rparr>
          else None)"
proof (induction ts arbitrary: conds)
  case Nil
  then show ?case by (simp split: option.splits)
next
  case (Cons t ts)
  have "fold (initializeCondition cs now) (t # ts) conds u =
      fold (initializeCondition cs now) ts (initializeCondition cs now t conds) u"
    by simp
  also have "\<dots> =
      (case initializeCondition cs now t conds u of
         Some c \<Rightarrow> Some c
       | None \<Rightarrow>
           if u \<in> set ts then
             Some \<lparr>Type = u, Status = ConditionUnknown, Severity = severity cs u,
                   Reason = [], Message = [], LastTransitionTime = now\<rparr>
           else None)"
    by (rule Cons.IH)
  also have "\<dots> =
      (case conds u of
         Some c \<Rightarrow> Some c
       | None \<Rightarrow>
           if u \<in> set (t # ts) then
             Some \<lparr>Type = u, Status = ConditionUnknown, Severity = severity cs u,
                   Reason = [], Message = [], LastTransitionTime = now\<rparr>
           else None)"
    by (simp add: initializeCondition_apply split: option.splits)
  finally show ?case .
qed

lemma Manage_InitializeConditions_apply:
  "Manage_InitializeConditions cs conds now u =
     (case conds u of
        Some c \<Rightarrow> Some c
      | None \<Rightarrow>
          if u = happy cs \<or> u \<in> set (dependents cs) then
            Some \<lparr>Type = u, Status = ConditionUnknown, Severity = severity cs u,
                  Reason = [], Message = [], LastTransitionTime = now\<rparr>
          else None)"
  unfolding Manage_InitializeConditions_def fold_initialize_apply
  by (simp split: option.splits)

lemma Manage_InitializeConditions_idem:
  "Manage_InitializeConditions cs (Manage_InitializeConditions cs conds now) later =
     Manage_InitializeConditions cs conds now"
  by (rule ext) (simp add: Manage_InitializeConditions_apply split: option.splits)

text \<open>
  C9. For every status, \<open>InitializeConditions\<close> called a second time, at whatever time,
  returns the status the first call returned, and a condition that is present in the
  status before the call is the same after it.
\<close>

theorem InitializeConditions_idempotent:
  "InitializeConditions (InitializeConditions s now) later = InitializeConditions s now
   \<and> (GetCondition s t = Some c \<longrightarrow> GetCondition (InitializeConditions s now) t = Some c)"
  by (simp add: InitializeConditions_def Manage_InitializeConditions_idem GetCondition_def
      Manage_GetCondition_def Manage_InitializeConditions_apply)

theorem InitializeConditions_idempotent_witness:
  "GetCondition exampleStatus ''ConnectionEstablished'' =
      Some \<lparr>Type = ''ConnectionEstablished'', Status = ConditionFalse,
           Severity = ConditionSeverityError, Reason = ''DialTimeout'',
           Message = ''could not reach broker'', LastTransitionTime = 2\<rparr>
   \<and> GetCondition (InitializeConditions exampleStatus 7) ''ConnectionEstablished'' =
      Some \<lparr>Type = ''ConnectionEstablished'', Status = ConditionFalse,
           Severity = ConditionSeverityError, Reason = ''DialTimeout'',
           Message = ''could not reach broker'', LastTransitionTime = 2\<rparr>
   \<and> InitializeConditions (InitializeConditions exampleStatus 7) 9 =
       InitializeConditions exampleStatus 7"
proof -
  have h: "GetCondition exampleStatus ''ConnectionEstablished'' =
      Some \<lparr>Type = ''ConnectionEstablished'', Status = ConditionFalse,
           Severity = ConditionSeverityError, Reason = ''DialTimeout'',
           Message = ''could not reach broker'', LastTransitionTime = 2\<rparr>"
    by (simp add: exampleStatus_def GetCondition_def Manage_GetCondition_def)
  from InitializeConditions_idempotent [of exampleStatus 7 9 "''ConnectionEstablished''"
      "\<lparr>Type = ''ConnectionEstablished'', Status = ConditionFalse,
           Severity = ConditionSeverityError, Reason = ''DialTimeout'',
           Message = ''could not reach broker'', LastTransitionTime = 2\<rparr>"] h
  show ?thesis by blast
qed

section \<open>Which calls return\<close>

lemma recompute_ready: "\<exists>r. recomputeAggregate cs conds now (happy cs) = Some r"
  using recompute_happy [of cs conds now] by blast

lemma Manage_marked:
  assumes "t \<noteq> happy KafkaSourceCondSet"
  shows "marked (Manage_MarkTrue KafkaSourceCondSet conds t now) t ConditionTrue"
    and "marked (Manage_MarkTrueWithReason KafkaSourceCondSet conds t r f a now) t ConditionTrue"
    and "marked (Manage_MarkFalse KafkaSourceCondSet conds t r f a now) t ConditionFalse"
    and "marked (Manage_MarkUnknown KafkaSourceCondSet conds t r f a now) t ConditionUnknown"
  using assms recompute_ready [of KafkaSourceCondSet]
  by (simp_all add: marked_def Manage_MarkTrue_def Manage_MarkTrueWithReason_def
      Manage_MarkFalse_def Manage_MarkUnknown_def recompute_other SetCondition_apply
      KafkaConditionReady_def ConditionReady_def happy_Kafka)

lemma markedCondition_not_happy: "markedCondition call \<noteq> happy KafkaSourceCondSet"
  by (cases call) (simp_all add: happy_Kafka KafkaConditionSinkProvided_def
      KafkaConditionDeployed_def KafkaConditionKeyType_def
      KafkaConditionConnectionEstablished_def KafkaConditionInitialOffsetsCommitted_def
      KafkaConditionOIDCIdentityCreated_def)

lemma runMark_marked:
  assumes "\<not> nilArgument call"
  shows "\<exists>s' st. runMark call s now = Inr s' \<and> st \<in> set (markedStatuses call) \<and>
           marked (Conditions s') (markedCondition call) st"
proof (cases call)
  case (CallMarkSink addr)
  with assms obtain a where a: "addr = Some a" by (cases addr) auto
  note m = Manage_marked [OF markedCondition_not_happy [of call], of "Conditions s"]
  show ?thesis
  proof (cases "URL a = None \<or> URL a = Some []")
    case True
    have "marked (Conditions (s\<lparr>Conditions := Manage_MarkUnknown KafkaSourceCondSet
        (Conditions s) KafkaConditionSinkProvided ''SinkEmpty''
        ''Sink has resolved to empty.%s'' [[]] now\<rparr>)) KafkaConditionSinkProvided
        ConditionUnknown"
      using m(4) CallMarkSink by simp
    with CallMarkSink a True show ?thesis
      by (auto simp: MarkSink_unresolved)
  next
    case False
    then obtain u where u: "URL a = Some u" "u \<noteq> []" by (cases "URL a") auto
    have "marked (Conditions (s\<lparr>SinkURI := URL a, SinkCACerts := CACerts a,
              SinkAudience := Audience a,
              Conditions := Manage_MarkTrue KafkaSourceCondSet (Conditions s)
                KafkaConditionSinkProvided now\<rparr>)) KafkaConditionSinkProvided ConditionTrue"
      using m(1) CallMarkSink by simp
    with CallMarkSink a show ?thesis
      by (auto simp: MarkSink_resolved [OF u])
  qed
next
  case (CallMarkDeployed d)
  with assms obtain dep where d: "d = Some dep" by (cases d) auto
  note m = Manage_marked [OF markedCondition_not_happy [of call], of "Conditions s"]
  show ?thesis
  proof (cases "availableLoop (DeploymentConditions (DStatus dep)) False")
    case True
    have "marked (Conditions (s\<lparr>Conditions := Manage_MarkTrue KafkaSourceCondSet (Conditions s)
                KafkaConditionDeployed now,
              Consumers := Replicas (DStatus dep)\<rparr>)) KafkaConditionDeployed ConditionTrue"
      using m(1) CallMarkDeployed by simp
    with CallMarkDeployed d show ?thesis
      by (auto simp: MarkDeployed_available [OF True])
  next
    case False
    have "marked (Conditions (s\<lparr>Conditions := Manage_MarkFalse KafkaSourceCondSet (Conditions s)
                KafkaConditionDeployed ''DeploymentUnavailable''
                ''The Deployment '%s' is unavailable.'' [DeploymentName dep] now\<rparr>))
              KafkaConditionDeployed ConditionFalse"
      using m(3) CallMarkDeployed by simp
    with CallMarkDeployed d show ?thesis
      by (auto simp: MarkDeployed_unavailable [OF False])
  qed
qed (use Manage_marked [OF markedCondition_not_happy [of call]] in
     \<open>simp_all add: MarkNoSink_def MarkDeploying_def MarkNotDeployed_def MarkKeyTypeCorrect_def
      MarkKeyTypeIncorrect_def MarkConnectionEstablished_def MarkConnectionNotEstablished_def
      MarkInitialOffsetCommitted_def MarkInitialOffsetNotCommitted_def
      MarkOIDCIdentityCreatedSucceeded_def MarkOIDCIdentityCreatedSucceededWithReason_def
      MarkOIDCIdentityCreatedFailed_def MarkOIDCIdentityCreatedUnknown_def\<close>)

lemma runMark_nil: "nilArgument call \<Longrightarrow> runMark call s now = Inl NilPointerDereference"
  by (cases call rule: nilArgument.cases) (simp_all add: MarkSink_def MarkDeployed_def)

lemma Enqueue_returns_iff:
  "(\<exists>q'. Enqueue k enqueue obj q = Inr q') =
     (obj \<noteq> ConsumerGroupPtr None \<and> \<not> (enqueue = None \<and> ownedByKind k obj))"
proof (cases obj)
  case NilInterface
  then show ?thesis by (simp add: Enqueue_def ownedByKind_def)
next
  case (OtherObject ty)
  then show ?thesis by (simp add: Enqueue_def ownedByKind_def)
next
  case (ConsumerGroupPtr p)
  show ?thesis
  proof (cases p)
    case None
    with ConsumerGroupPtr show ?thesis by (simp add: Enqueue_def)
  next
    case (Some cg)
    with ConsumerGroupPtr show ?thesis
      by (cases enqueue)
         (simp_all add: Enqueue_def ownedByKind_def enqueueLoop_fold enqueueLoop_nil_callback
            list_ex_iff)
  qed
qed

lemma InitializeConditions_present:
  "t = KafkaConditionReady \<or> t \<in> set (dependents KafkaSourceCondSet) \<Longrightarrow>
     \<exists>c. GetCondition (InitializeConditions s now) t = Some c"
  by (auto simp: InitializeConditions_def GetCondition_def Manage_GetCondition_def
      Manage_InitializeConditions_apply KafkaConditionReady_def ConditionReady_def happy_Kafka
      split: option.splits)

text \<open>
  C8, as stated, fails: \<open>MarkSink\<close> with a nil addressable and \<open>MarkDeployed\<close> with a nil
  deployment panic, each on its first read through the pointer.
\<close>

theorem MarkSink_nil_addressable_panics:
  "MarkSink freshStatus None 0 = Inl NilPointerDereference
   \<and> MarkDeployed freshStatus None 0 = Inl NilPointerDereference"
  by (simp add: MarkSink_def MarkDeployed_def)

text \<open>
  C8, amended. On a status, every operation returns for every input but a nil pointer it
  reads through or a nil function it calls.
  \<^item> A mark operation panics when it is \<open>MarkSink\<close> with a nil addressable or \<open>MarkDeployed\<close>
    with a nil deployment. Every other call of the fifteen mark operations returns a status
    in which the condition the operation is about is present, with a status the operation
    can give it, and in which the aggregate Ready is present.
  \<^item> \<open>InitializeConditions\<close> returns a status in which Ready and the five dependents are
    present; \<open>GetCondition\<close> returns the condition stored under the type, or nil; \<open>IsReady\<close>
    returns whether Ready is present with the status True.
  \<^item> The predicate of \<open>Filter\<close> returns unless the object is a nil \<open>*ConsumerGroup\<close>.
  \<^item> The function of \<open>Enqueue\<close> returns unless the object is a nil \<open>*ConsumerGroup\<close>, or
    \<open>enqueue\<close> is nil and an owner reference of the object is of the kind.
  \<^item> \<open>DeploymentIsAvailable\<close> returns unless its status pointer is nil.
\<close>

theorem operations_return_unless_nil_pointer:
  "(if nilArgument call then runMark call s now = Inl NilPointerDereference
    else \<exists>s' c r. runMark call s now = Inr s' \<and>
           GetCondition s' (markedCondition call) = Some c \<and>
           Status c \<in> set (markedStatuses call) \<and>
           GetCondition s' KafkaConditionReady = Some r)
   \<and> list_all (\<lambda>t. \<exists>c. GetCondition (InitializeConditions s now) t = Some c)
        [KafkaConditionReady, KafkaConditionSinkProvided, KafkaConditionDeployed,
         KafkaConditionConnectionEstablished, KafkaConditionInitialOffsetsCommitted,
         KafkaConditionOIDCIdentityCreated]
   \<and> GetCondition s t = Conditions s t
   \<and> IsReady s = (\<exists>c. GetCondition s KafkaConditionReady = Some c \<and> Status c = ConditionTrue)
   \<and> (\<exists>b. Filter k obj = Inr b) = (obj \<noteq> ConsumerGroupPtr None)
   \<and> (\<exists>q'. Enqueue k enqueue obj q = Inr q') =
       (obj \<noteq> ConsumerGroupPtr None \<and> \<not> (enqueue = None \<and> ownedByKind k obj))
   \<and> (\<exists>b. DeploymentIsAvailable d def = Inr b) = (d \<noteq> None)"
proof -
  have 1: "if nilArgument call then runMark call s now = Inl NilPointerDereference
    else \<exists>s' c r. runMark call s now = Inr s' \<and>
           GetCondition s' (markedCondition call) = Some c \<and>
           Status c \<in> set (markedStatuses call) \<and>
           GetCondition s' KafkaConditionReady = Some r"
  proof (cases "nilArgument call")
    case True
    then show ?thesis by (simp add: runMark_nil)
  next
    case False
    from runMark_marked [OF False, of s now] obtain s' st where
      "runMark call s now = Inr s'" "st \<in> set (markedStatuses call)"
      "marked (Conditions s') (markedCondition call) st" by blast
    with False show ?thesis
      by (auto simp: marked_def GetCondition_def Manage_GetCondition_def)
  qed
  have 2: "list_all (\<lambda>t. \<exists>c. GetCondition (InitializeConditions s now) t = Some c)
        [KafkaConditionReady, KafkaConditionSinkProvided, KafkaConditionDeployed,
         KafkaConditionConnectionEstablished, KafkaConditionInitialOffsetsCommitted,
         KafkaConditionOIDCIdentityCreated]"
    by (simp add: InitializeConditions_present dependents_declared)
  have 3: "GetCondition s t = Conditions s t"
    by (simp add: GetCondition_def Manage_GetCondition_def)
  have 4: "IsReady s =
      (\<exists>c. GetCondition s KafkaConditionReady = Some c \<and> Status c = ConditionTrue)"
    by (simp add: IsReady_def Manage_IsHappy_def GetCondition_def Manage_GetCondition_def
        KafkaConditionReady_def ConditionReady_def happy_Kafka split: option.splits)
  have 5: "(\<exists>b. Filter k obj = Inr b) = (obj \<noteq> ConsumerGroupPtr None)"
    by (cases obj) (auto simp: Filter_def split: option.splits)
  have 6: "(\<exists>b. DeploymentIsAvailable d def = Inr b) = (d \<noteq> None)"
    by (cases d) (auto simp: DeploymentIsAvailable_def)
  from 1 2 3 4 5 6 Enqueue_returns_iff [of k enqueue obj q] show ?thesis
    by (simp only: simp_thms)
qed

theorem operations_return_unless_nil_pointer_witness:
  "runMark (CallMarkSink None) freshStatus 1 = Inl NilPointerDereference
   \<and> (\<exists>s' c r. runMark (CallMarkNoSink ''NotFound'' ''no sink %s'' [''here'']) freshStatus 1 =
          Inr s' \<and>
        GetCondition s' KafkaConditionSinkProvided = Some c \<and> Status c = ConditionFalse \<and>
        GetCondition s' KafkaConditionReady = Some r)
   \<and> (\<exists>c. GetCondition (InitializeConditions freshStatus 1) KafkaConditionDeployed = Some c)
   \<and> \<not> IsReady freshStatus
   \<and> (\<exists>b. Filter ''Trigger'' NilInterface = Inr b)
   \<and> \<not> (\<exists>b. Filter ''Trigger'' (ConsumerGroupPtr None) = Inr b)
   \<and> \<not> (\<exists>q'. Enqueue ''Trigger'' None
          (ConsumerGroupPtr (Some \<lparr>Namespace = ''ns'',
             OwnerReferences = [\<lparr>Kind = ''Trigger'', Name = ''a''\<rparr>]\<rparr>))
          ([] :: NamespacedName list) = Inr q')
   \<and> (\<exists>q'. Enqueue ''Trigger'' None
          (ConsumerGroupPtr (Some \<lparr>Namespace = ''ns'',
             OwnerReferences = [\<lparr>Kind = ''KafkaSource'', Name = ''x''\<rparr>]\<rparr>))
          ([] :: NamespacedName list) = Inr q')
   \<and> \<not> (\<exists>b. DeploymentIsAvailable None True = Inr b)"
proof -
  let ?owned = "ConsumerGroupPtr (Some \<lparr>Namespace = ''ns'',
             OwnerReferences = [\<lparr>Kind = ''Trigger'', Name = ''a''\<rparr>]\<rparr>)"
  let ?other = "ConsumerGroupPtr (Some \<lparr>Namespace = ''ns'',
             OwnerReferences = [\<lparr>Kind = ''KafkaSource'', Name = ''x''\<rparr>]\<rparr>)"
  let ?q = "[] :: NamespacedName list"
  note at = operations_return_unless_nil_pointer
      [of _ freshStatus 1 KafkaConditionReady "''Trigger''" _ None ?q None True]
  have own: "ownedByKind ''Trigger'' ?owned" "\<not> ownedByKind ''Trigger'' ?other"
    by (simp_all add: ownedByKind_def ToLower_examples)
  have 1: "runMark (CallMarkSink None) freshStatus 1 = Inl NilPointerDereference"
    using at [of "CallMarkSink None" NilInterface] by simp
  have 2: "\<exists>s' c r. runMark (CallMarkNoSink ''NotFound'' ''no sink %s'' [''here''])
        freshStatus 1 = Inr s' \<and>
        GetCondition s' KafkaConditionSinkProvided = Some c \<and> Status c = ConditionFalse \<and>
        GetCondition s' KafkaConditionReady = Some r"
    using at [of "CallMarkNoSink ''NotFound'' ''no sink %s'' [''here'']" NilInterface]
    by simp
  have 3: "\<exists>c. GetCondition (InitializeConditions freshStatus 1) KafkaConditionDeployed =
      Some c"
    using at [of "CallMarkSink None" NilInterface] by simp
  have 4: "\<not> IsReady freshStatus"
    using at [of "CallMarkSink None" NilInterface]
    by (simp add: freshStatus_def)
  have 5: "\<exists>b. Filter ''Trigger'' NilInterface = Inr b"
    using at [of "CallMarkSink None" NilInterface] by simp
  have 6: "\<not> (\<exists>b. Filter ''Trigger'' (ConsumerGroupPtr None) = Inr b)"
    using at [of "CallMarkSink None" "ConsumerGroupPtr None"] by simp
  have 7: "\<not> (\<exists>q'. Enqueue ''Trigger'' None ?owned ?q = Inr q')"
    using at [of "CallMarkSink None" ?owned] own by simp
  have 8: "\<exists>q'. Enqueue ''Trigger'' None ?other ?q = Inr q'"
    using at [of "CallMarkSink None" ?other] own by simp
  have 9: "\<not> (\<exists>b. DeploymentIsAvailable None True = Inr b)"
    using at [of "CallMarkSink None" NilInterface] by simp
  from 1 2 3 4 5 6 7 8 9 show ?thesis by blast
qed

end
